theory Spec2Isabelle
  imports Complex_Main "HOL-Library.AList" "HOL-Library.Product_Lexorder"
begin

section \<open>Winged-edge structure of a planar graph: model of \<open>pysal/network/wed.py\<close>\<close>

text \<open>
  Node ids are Python integers, a half-edge is an ordered pair of node ids and a face id
  is an integer. Coordinates are pairs of numbers; the rounding of Python floats is not
  modelled, a coordinate is a real number. A Python \<open>dict\<close> is kept as a list of
  key/value pairs without repeated keys, read with \<open>map_of\<close>, written with
  \<open>AList.update\<close> (a new key goes to the end, an old key keeps its place) and iterated
  from left to right.
\<close>

type_synonym node = int
type_synonym edge = "node \<times> node"
type_synonym point = "real \<times> real"
type_synonym ('k, 'v) dict = "('k \<times> 'v) list"

datatype error = KeyError | IndexError | ValueError | AttributeError | ZeroDivisionError | OutOfFuel

definition twin :: "edge \<Rightarrow> edge" where
  "twin e = (snd e, fst e)"

definition getitem :: "('k, 'v) dict \<Rightarrow> 'k \<Rightarrow> error + 'v" where
  "getitem d k = (case map_of d k of None \<Rightarrow> Inl KeyError | Some v \<Rightarrow> Inr v)"

definition setdefault :: "'k \<Rightarrow> 'v \<Rightarrow> ('k, 'v) dict \<Rightarrow> ('k, 'v) dict" where
  "setdefault k v d = (case map_of d k of None \<Rightarrow> AList.update k v d | Some _ \<Rightarrow> d)"

subsection \<open>\<open>check_edges\<close>\<close>

text \<open>
  The scan of lines 73-80: \<open>seen\<close> collects every pair met so far together with its
  reverse, \<open>seen_twice\<close> the pairs that were already in \<open>seen\<close> when met.
\<close>

fun scan_seen :: "edge list \<Rightarrow> edge set \<times> edge set \<Rightarrow> edge set \<times> edge set" where
  "scan_seen [] (seen, seen_twice) = (seen, seen_twice)"
| "scan_seen (e # es) (seen, seen_twice) =
     scan_seen es (insert (twin e) (insert e seen),
                   if e \<in> seen then insert e seen_twice else seen_twice)"

definition seen_twice :: "edge list \<Rightarrow> edge set" where
  "seen_twice edges = snd (scan_seen edges ({}, {}))"

text \<open>The test of line 81; \<open>/\<close> on two Python 2 integers is floor division.\<close>

definition makes_double :: "edge list \<Rightarrow> bool" where
  "makes_double edges \<longleftrightarrow> card (seen_twice edges) \<noteq> length edges div 2"

fun dbl_edges :: "edge list \<Rightarrow> edge list" where
  "dbl_edges [] = []"
| "dbl_edges (e # es) = e # twin e # dbl_edges es"

definition check_edges :: "edge list \<Rightarrow> edge list" where
  "check_edges edges = (if makes_double edges then dbl_edges edges else edges)"

subsection \<open>\<open>filament_pointers\<close>\<close>

record fil_ptrs =
  ecc :: "(edge, edge) dict"
  ec :: "(edge, edge) dict"
  scc :: "(edge, edge) dict"
  sc :: "(edge, edge) dict"
  fp_node_edge :: "(node, edge) dict"

text \<open>One pass of the loop of lines 681-695, for the triple \<open>s0, e0, s1\<close>.\<close>

definition fil_triple :: "node \<Rightarrow> node \<Rightarrow> node \<Rightarrow> fil_ptrs \<Rightarrow> fil_ptrs" where
  "fil_triple s0 e0 s1 p =
     p\<lparr> ecc := AList.update (s1, e0) (e0, s0) (AList.update (s0, e0) (e0, s1) (ecc p)),
        ec := AList.update (s0, e0) (e0, s1) (ec p),
        sc := AList.update (e0, s1) (s0, e0) (sc p),
        scc := AList.update (e0, s1) (s0, e0) (scc p),
        fp_node_edge := setdefault s1 (e0, s1) (setdefault e0 (s0, e0)
                          (setdefault s0 (s0, e0) (fp_node_edge p))) \<rparr>"

fun fil_loop :: "node list \<Rightarrow> fil_ptrs \<Rightarrow> fil_ptrs" where
  "fil_loop (s0 # e0 # s1 # rest) p = fil_loop (e0 # s1 # rest) (fil_triple s0 e0 s1 p)"
| "fil_loop _ p = p"

text \<open>
  Lines 697-713. \<open>filament[-2]\<close> raises IndexError on a filament of fewer than two
  nodes; from two nodes on every index used is in range.
\<close>

definition fil_wrap :: "node list \<Rightarrow> fil_ptrs \<Rightarrow> fil_ptrs" where
  "fil_wrap filament p =
     (let nv = length filament;
          f0 = filament ! 0; f1 = filament ! 1;
          l2 = filament ! (nv - 2); l1 = filament ! (nv - 1);
          p1 = p\<lparr> ecc := AList.update (l2, l1) (l1, l2) (ecc p) \<rparr>;
          p2 = p1\<lparr> ec := AList.update (l2, l1) (l2, l1) (ec p1) \<rparr>;
          p3 = p2\<lparr> ecc := AList.update (f1, f0) (f0, f1) (ecc p2) \<rparr>;
          p4 = p3\<lparr> ec := AList.update (f1, f0) (f1, f0) (ec p3) \<rparr>;
          p5 = p4\<lparr> sc := AList.update (f0, f1) (f0, f1) (sc p4) \<rparr>
      in if nv = 2 then
           p5\<lparr> sc := AList.update (f0, f1) (f0, f1) (sc p5),
               ec := AList.update (f0, f1) (f0, f1) (ec p5),
               ecc := AList.update (f0, f1) (f1, f0) (ecc p5),
               scc := AList.update (f0, f1) (f0, f1) (scc p5),
               fp_node_edge := setdefault f1 (f0, f1) (setdefault f0 (f0, f1) (fp_node_edge p5)) \<rparr>
         else p5)"

definition filament_pointers :: "node list \<Rightarrow> (node, edge) dict \<Rightarrow> error + fil_ptrs" where
  "filament_pointers filament node_edge =
     (if length filament < 2 then Inl IndexError
      else Inr (fil_wrap filament
                  (fil_loop filament \<lparr> ecc = [], ec = [], scc = [], sc = [], fp_node_edge = node_edge \<rparr>)))"

subsection \<open>\<open>regions_from_graph\<close>: the state of the extraction\<close>

text \<open>
  The nested functions of \<open>regions_from_graph\<close> pass the same objects around and change
  them in place; the model passes one record. \<open>nodes\<close> and \<open>edges\<close> are the very objects
  the caller handed in. A primitive is an isolated node or a filament (a list of nodes).
\<close>

datatype prim = Isolated node | Filament "node list"

record rg_state =
  sorted_nodes :: "(node \<times> point) list"
  edges :: "edge list"
  nodes :: "(node, point) dict"
  node_coord :: "(point, node) dict"
  primitives :: "prim list"
  minimal_cycles :: "node list list"
  cycle_edge :: "edge list"
  vertices :: "(node, point) dict"
  ext_edges :: "edge list"

definition bind_err :: "error + 'a \<Rightarrow> ('a \<Rightarrow> error + 'b) \<Rightarrow> error + 'b" where
  "bind_err m f = (case m of Inl e \<Rightarrow> Inl e | Inr x \<Rightarrow> f x)"

definition adj_nodes :: "node \<Rightarrow> edge list \<Rightarrow> node list" where
  "adj_nodes start_key es = map snd (filter (\<lambda>e. fst e = start_key) es)"

definition cross :: "point \<Rightarrow> point \<Rightarrow> real" where
  "cross u v = fst u * snd v - snd u * fst v"

definition psub :: "point \<Rightarrow> point \<Rightarrow> point" where
  "psub a b = (fst a - fst b, snd a - snd b)"

text \<open>
  \<open>clockwise\<close> is only ever called with \<open>v_prev = None\<close> (the \<open>prev_key\<close> of the enclosing
  scope, never reassigned), so \<open>v_prev\<close> is the point \<open>(0, -1)\<close> and \<open>d_curr\<close> is the
  current point minus that point. The loop state is \<open>v_next\<close> with its \<open>d_next\<close> and
  \<open>convex\<close>, absent before the first candidate.
\<close>

definition cw_pick :: "point \<Rightarrow> point \<Rightarrow> point \<times> point \<times> bool" where
  "cw_pick d_curr cand_d = (cand_d, cand_d, cross cand_d d_curr \<le> 0)"

fun cw_loop :: "(node, point) dict \<Rightarrow> point \<Rightarrow> point \<Rightarrow> point \<Rightarrow> node list \<Rightarrow>
    (point \<times> point \<times> bool) option \<Rightarrow> error + (point \<times> point \<times> bool) option" where
  "cw_loop ns v_curr v_prev d_curr [] acc = Inr acc"
| "cw_loop ns v_curr v_prev d_curr (v_adj # rest) acc =
     (case map_of ns v_adj of
        None \<Rightarrow> Inl KeyError
      | Some c \<Rightarrow>
          if c = v_prev then cw_loop ns v_curr v_prev d_curr rest acc
          else
            let d_adj = psub c v_curr;
                (v_next, d_next, convex) =
                   (case acc of None \<Rightarrow> (c, d_adj, cross d_adj d_curr \<le> 0) | Some t \<Rightarrow> t);
                better =
                   (if convex then cross d_curr d_adj < 0 \<or> cross d_next d_adj < 0
                    else cross d_curr d_adj < 0 \<and> cross d_next d_adj < 0)
            in cw_loop ns v_curr v_prev d_curr rest
                 (Some (if better then (c, d_adj, cross d_adj d_curr \<le> 0)
                        else (v_next, d_next, convex))))"

definition clockwise :: "(node, point) dict \<Rightarrow> (point, node) dict \<Rightarrow> node list \<Rightarrow> node \<Rightarrow>
    error + node" where
  "clockwise ns nc vnext start_key =
     (case map_of ns start_key of
        None \<Rightarrow> Inl KeyError
      | Some v_curr \<Rightarrow>
          let v_prev = (0, -1); d_curr = psub v_curr v_prev in
          bind_err (cw_loop ns v_curr v_prev d_curr vnext None)
            (\<lambda>acc. case acc of
                None \<Rightarrow> Inl AttributeError
              | Some (v_next, _, _) \<Rightarrow> getitem nc v_next))"

text \<open>
  \<open>counterclockwise\<close>: here \<open>convex\<close> stays a number. The test \<open>v_next == None\<close> on an
  array is read as the numpy of the source's time read it (false for an array). The
  \<open>try\<close> around the return turns a missing candidate and a failed \<open>node_coord\<close> lookup
  into \<open>None\<close>; the caller reads the second and third component only.
\<close>

fun ccw_loop :: "(node, point) dict \<Rightarrow> point \<Rightarrow> point \<Rightarrow> node \<Rightarrow> node list \<Rightarrow>
    (point \<times> point \<times> real) option \<Rightarrow> error + (point \<times> point \<times> real) option" where
  "ccw_loop ns v_curr d_curr prev_key [] acc = Inr acc"
| "ccw_loop ns v_curr d_curr prev_key (v_adj # rest) acc =
     (if v_adj = prev_key then ccw_loop ns v_curr d_curr prev_key rest acc
      else
        case map_of ns v_adj of
          None \<Rightarrow> Inl KeyError
        | Some c \<Rightarrow>
            let d_adj = psub c v_curr;
                (v_next, d_next, convex) =
                   (case acc of None \<Rightarrow> (c, d_adj, cross d_adj d_curr) | Some t \<Rightarrow> t);
                better =
                   (if convex \<le> 0 then cross d_curr d_adj > 0 \<and> cross d_next d_adj > 0
                    else cross d_curr d_adj > 0 \<or> cross d_next d_adj > 0)
            in ccw_loop ns v_curr d_curr prev_key rest
                 (Some (if better then (c, d_adj, cross d_adj d_curr)
                        else (v_next, d_next, convex))))"

definition counterclockwise :: "(node, point) dict \<Rightarrow> (point, node) dict \<Rightarrow> node list \<Rightarrow>
    node \<Rightarrow> node \<Rightarrow> error + node option" where
  "counterclockwise ns nc vnexts start_key prev_key =
     (case map_of ns prev_key of
        None \<Rightarrow> Inl KeyError
      | Some v_prev \<Rightarrow>
         (case map_of ns start_key of
            None \<Rightarrow> Inl KeyError
          | Some v_curr \<Rightarrow>
              bind_err (ccw_loop ns v_curr (psub v_curr v_prev) prev_key vnexts None)
                (\<lambda>acc. case acc of
                    None \<Rightarrow> Inr None
                  | Some (v_next, _, _) \<Rightarrow> Inr (map_of nc v_next))))"

text \<open>
  \<open>remove_edge\<close> appends both directions to \<open>ext_edges\<close> first; the two \<open>list.remove\<close>
  calls sit in one \<open>try\<close>, so the second is not reached when the first raises.
\<close>

definition remove_edge :: "node \<Rightarrow> node \<Rightarrow> rg_state \<Rightarrow> rg_state" where
  "remove_edge v0 v1 s =
     s\<lparr> ext_edges := ext_edges s @ [(v0, v1), (v1, v0)],
        edges := (if (v0, v1) \<in> set (edges s)
                  then remove1 (v1, v0) (remove1 (v0, v1) (edges s)) else edges s) \<rparr>"

definition remove_heap :: "node \<Rightarrow> rg_state \<Rightarrow> rg_state" where
  "remove_heap v0 s = s\<lparr> sorted_nodes := filter (\<lambda>x. fst x \<noteq> v0) (sorted_nodes s) \<rparr>"

definition remove_node :: "node \<Rightarrow> rg_state \<Rightarrow> error + rg_state" where
  "remove_node v0 s =
     (case map_of (nodes s) v0 of
        None \<Rightarrow> Inl KeyError
      | Some c \<Rightarrow>
         (case map_of (node_coord s) c of
            None \<Rightarrow> Inl KeyError
          | Some _ \<Rightarrow>
              Inr (s\<lparr> vertices := AList.update v0 c (vertices s),
                      node_coord := AList.delete c (node_coord s),
                      nodes := AList.delete v0 (nodes s) \<rparr>)))"

definition extractisolated :: "node \<Rightarrow> rg_state \<Rightarrow> error + rg_state" where
  "extractisolated v0 s = remove_node v0 (s\<lparr> primitives := primitives s @ [Isolated v0] \<rparr>)"

definition in_cycle :: "node \<Rightarrow> node \<Rightarrow> rg_state \<Rightarrow> bool" where
  "in_cycle v0 v1 s \<longleftrightarrow> (v0, v1) \<in> set (cycle_edge s) \<or> (v1, v0) \<in> set (cycle_edge s)"

text \<open>
  The two \<open>while len(adj_nodes(v0, edges)) == 1\<close> loops of \<open>extractfilament\<close>, with the
  values of \<open>v0\<close> and \<open>v1\<close> on exit. Every loop of the extraction takes a number of
  passes it may still make and gives \<open>OutOfFuel\<close> when none is left.
\<close>

fun cyc_walk :: "nat \<Rightarrow> node \<Rightarrow> node \<Rightarrow> rg_state \<Rightarrow> error + (node \<times> node \<times> rg_state)" where
  "cyc_walk 0 v0 v1 s = Inl OutOfFuel"
| "cyc_walk (Suc n) v0 v1 s =
     (case adj_nodes v0 (edges s) of
        [a] \<Rightarrow>
          if in_cycle v0 a s then
            bind_err (remove_node v0 (remove_edge v0 a s))
              (\<lambda>s'. cyc_walk n a a (remove_heap v0 s'))
          else Inr (v0, a, s)
      | _ \<Rightarrow> Inr (v0, v1, s))"

fun fil_walk :: "nat \<Rightarrow> node \<Rightarrow> node \<Rightarrow> node list \<Rightarrow> rg_state \<Rightarrow>
    error + (node \<times> node \<times> node list \<times> rg_state)" where
  "fil_walk 0 v0 v1 primitive s = Inl OutOfFuel"
| "fil_walk (Suc n) v0 v1 primitive s =
     (case adj_nodes v0 (edges s) of
        [a] \<Rightarrow>
          bind_err (remove_node v0 (remove_edge v0 a (remove_heap v0 s)))
            (\<lambda>s'. fil_walk n a a (primitive @ [v0]) s')
      | _ \<Rightarrow> Inr (v0, v1, primitive, s))"

definition extractfilament :: "nat \<Rightarrow> node \<Rightarrow> node \<Rightarrow> rg_state \<Rightarrow> error + rg_state" where
  "extractfilament fuel v0 v1 s =
     (if in_cycle v0 v1 s then
        let (v0a, v1a, s1) =
              (if length (adj_nodes v0 (edges s)) \<ge> 3 then
                 let s' = remove_edge v0 v1 s in
                 (v1, (case adj_nodes v1 (edges s') of [a] \<Rightarrow> a | _ \<Rightarrow> v1), s')
               else (v0, v1, s))
        in bind_err (cyc_walk fuel v0a v1a s1)
             (\<lambda>(v0b, v1b, s2).
                if adj_nodes v0b (edges s2) = [] then
                  bind_err (remove_node v0b s2) (\<lambda>s3. Inr (remove_heap v0b s3))
                else Inr s2)
      else
        let (v0a, v1a, primitive, s1) =
              (if length (adj_nodes v0 (edges s)) \<ge> 3 then
                 let s' = remove_edge v0 v1 s in
                 (v1, (case adj_nodes v1 (edges s') of [a] \<Rightarrow> a | _ \<Rightarrow> v1), [v0], s')
               else (v0, v1, [], s))
        in bind_err (fil_walk fuel v0a v1a primitive s1)
             (\<lambda>(v0b, v1b, prim1, s2).
                let prim2 = prim1 @ [v0b] in
                bind_err
                  (if adj_nodes v0b (edges s2) = [] then
                     remove_node v0b (remove_edge v0b v1b (remove_heap v0b s2))
                   else Inr s2)
                  (\<lambda>s3. Inr (s3\<lparr> primitives := primitives s3 @ [Filament prim2] \<rparr>))))"

text \<open>
  The walk of \<open>extract_primitives\<close> (lines 979-999): \<open>sequence\<close> and \<open>visited\<close> grow by
  the current node until the walk has no next node, is back at \<open>v0\<close> or meets a visited
  node. The result is \<open>sequence\<close>, the last \<open>v_curr\<close> and \<open>v_prev\<close>.
\<close>

fun walk :: "nat \<Rightarrow> node \<Rightarrow> rg_state \<Rightarrow> node list \<Rightarrow> node list \<Rightarrow> node option \<Rightarrow> node \<Rightarrow>
    error + (node list \<times> node option \<times> node)" where
  "walk 0 v0 s sequence visited v_curr v_prev = Inl OutOfFuel"
| "walk (Suc n) v0 s sequence visited v_curr v_prev =
     (case v_curr of
        None \<Rightarrow> Inr (sequence, None, v_prev)
      | Some c \<Rightarrow>
          if c = v0 \<or> c \<in> set visited then Inr (sequence, Some c, v_prev)
          else
            bind_err (counterclockwise (nodes s) (node_coord s) (adj_nodes c (edges s)) c v_prev)
              (\<lambda>v_next. walk n v0 s (sequence @ [c]) (visited @ [c]) v_next c))"

text \<open>Lines 1024-1026, on the closed sequence.\<close>

definition cycle_marks :: "node list \<Rightarrow> edge list" where
  "cycle_marks sequence =
     concat (map (\<lambda>(v, u). [(v, u), (u, v)]) (zip (butlast (tl sequence)) sequence))"

text \<open>Lines 1015-1018 and 1019-1022: the filament hanging off an end of the removed edge.\<close>

definition hanging :: "nat \<Rightarrow> node \<Rightarrow> rg_state \<Rightarrow> error + rg_state" where
  "hanging fuel v s =
     (case adj_nodes v (edges s) of
        [a] \<Rightarrow> extractfilament fuel v a (s\<lparr> cycle_edge := cycle_edge s @ [(v, a), (a, v)] \<rparr>)
      | _ \<Rightarrow> Inr s)"

text \<open>Lines 1030-1036: along nodes of two neighbours, away from the node just left.\<close>

fun chain_walk :: "nat \<Rightarrow> node \<Rightarrow> node \<Rightarrow> edge list \<Rightarrow> error + (node \<times> node)" where
  "chain_walk 0 v0 v1 es = Inl OutOfFuel"
| "chain_walk (Suc n) v0 v1 es =
     (case adj_nodes v0 es of
        [a, b] \<Rightarrow> if a \<noteq> v1 then chain_walk n a v0 es else chain_walk n b v0 es
      | _ \<Rightarrow> Inr (v0, v1))"

definition extract_primitives :: "nat \<Rightarrow> node \<Rightarrow> rg_state \<Rightarrow> error + rg_state" where
  "extract_primitives fuel start_key s =
     (let v0 = start_key in
      bind_err (clockwise (nodes s) (node_coord s) (adj_nodes start_key (edges s)) start_key)
        (\<lambda>v1.
          bind_err (walk fuel v0 s [v0] [] (Some v1) v0)
            (\<lambda>(sequence, v_curr, v_prev).
               case v_curr of
                 None \<Rightarrow>
                   (case adj_nodes v_prev (edges s) of
                      [] \<Rightarrow> Inl IndexError
                    | a # _ \<Rightarrow> extractfilament fuel v_prev a s)
               | Some c \<Rightarrow>
                   if c = v0 then
                     let closed = sequence @ [v0];
                         s1 = remove_heap v0 (remove_edge v0 v1
                                (s\<lparr> minimal_cycles := minimal_cycles s @ [closed] \<rparr>))
                     in bind_err (hanging fuel v0 s1)
                          (\<lambda>s2. bind_err (hanging fuel v1 s2)
                             (\<lambda>s3. Inr (s3\<lparr> cycle_edge := cycle_edge s3 @ cycle_marks closed \<rparr>)))
                   else
                     bind_err (chain_walk fuel v0 v1 (edges s))
                       (\<lambda>(v0a, v1a). extractfilament fuel v0a v1a s))))"

text \<open>The loop of lines 1054-1064.\<close>

fun main_loop :: "nat \<Rightarrow> rg_state \<Rightarrow> error + rg_state" where
  "main_loop 0 s = Inl OutOfFuel"
| "main_loop (Suc n) s =
     (case sorted_nodes s of
        [] \<Rightarrow> Inr s
      | (start_key, _) # _ \<Rightarrow>
          (case adj_nodes start_key (edges s) of
             [] \<Rightarrow>
               bind_err (extractisolated start_key s)
                 (\<lambda>s'. main_loop n (s'\<lparr> sorted_nodes := tl (sorted_nodes s') \<rparr>))
           | [a] \<Rightarrow> bind_err (extractfilament n start_key a s) (main_loop n)
           | _ \<Rightarrow> bind_err (extract_primitives n start_key s) (main_loop n)))"

text \<open>
  Lines 1041-1051: the nodes sorted by coordinate (a stable sort of the items), the
  reverse dictionary from coordinate to node id (a later node with the same coordinate
  replaces an earlier one) and empty results.
\<close>

definition init_state :: "(node, point) dict \<Rightarrow> edge list \<Rightarrow> rg_state" where
  "init_state ns es =
     \<lparr> sorted_nodes = sort_key snd ns, edges = es, nodes = ns,
       node_coord = foldl (\<lambda>d (k, c). AList.update c k d) [] ns,
       primitives = [], minimal_cycles = [], cycle_edge = [], vertices = [], ext_edges = [] \<rparr>"

definition run_extraction :: "nat \<Rightarrow> (node, point) dict \<Rightarrow> edge list \<Rightarrow> error + rg_state" where
  "run_extraction fuel ns es = main_loop fuel (init_state ns es)"

fun filaments_of :: "prim list \<Rightarrow> node list list" where
  "filaments_of [] = []"
| "filaments_of (Filament f # ps) = f # filaments_of ps"
| "filaments_of (Isolated v # ps) = filaments_of ps"

record results =
  regions :: "node list list"
  filaments :: "node list list"
  res_vertices :: "(node, point) dict"
  res_edges :: "edge list"

text \<open>\<open>regions_from_graph\<close> with \<open>remove_holes\<close> left at its default \<open>False\<close>.\<close>

definition results_of :: "rg_state \<Rightarrow> results" where
  "results_of s =
     \<lparr> regions = minimal_cycles s, filaments = filaments_of (primitives s),
       res_vertices = vertices s, res_edges = ext_edges s \<rparr>"

definition regions_from_graph :: "nat \<Rightarrow> (node, point) dict \<Rightarrow> edge list \<Rightarrow> error + results" where
  "regions_from_graph fuel ns es = bind_err (run_extraction fuel ns es) (\<lambda>s. Inr (results_of s))"

text \<open>The triangle S1, the triangle with a filament S5 and the graph of the docstring.\<close>

definition s1_coords :: "(node, point) dict" where
  "s1_coords = [(0, (0, 0)), (1, (1, 0)), (2, (0, 1))]"

definition s1_edges :: "edge list" where
  "s1_edges = [(0, 1), (1, 2), (2, 0)]"

definition s5_coords :: "(node, point) dict" where
  "s5_coords = [(0, (0, 0)), (1, (1, 0)), (2, (0, 1)), (3, (2, 2))]"

definition s5_edges :: "edge list" where
  "s5_edges = [(0, 1), (1, 2), (2, 0), (1, 3)]"

definition eberly_vertices :: "(node, point) dict" where
  "eberly_vertices =
     [(0, (1, 8)), (1, (1, 7)), (2, (4, 7)), (3, (0, 4)), (4, (5, 4)), (5, (3, 5)),
      (6, (2, 9/2)), (7, (13/2, 9)), (8, (31/5, 5)), (9, (11/2, 3)), (10, (7, 3)),
      (11, (15/2, 29/4)), (12, (8, 4)), (13, (23/2, 29/4)), (14, (9, 1)), (15, (11, 3)),
      (16, (12, 2)), (17, (12, 5)), (18, (27/2, 6)), (19, (14, 29/4)), (20, (16, 4)),
      (21, (18, 17/2)), (22, (16, 1)), (23, (21, 1)), (24, (21, 4)), (25, (18, 7/2)),
      (26, (17, 2)), (27, (19, 2))]"

definition eberly_edges :: "edge list" where
  "eberly_edges =
     [(1, 2), (1, 3), (2, 1), (2, 4), (2, 7), (3, 1), (3, 4), (4, 2), (4, 3), (4, 5),
      (5, 4), (5, 6), (6, 5), (7, 2), (7, 11), (8, 9), (8, 10), (9, 8), (9, 10), (10, 8),
      (10, 9), (11, 7), (11, 12), (11, 13), (12, 11), (12, 13), (12, 20), (13, 11),
      (13, 12), (13, 18), (14, 15), (15, 14), (15, 16), (16, 15), (18, 13), (18, 19),
      (19, 18), (19, 20), (19, 21), (20, 12), (20, 19), (20, 21), (20, 22), (20, 24),
      (21, 19), (21, 20), (22, 20), (22, 23), (23, 22), (23, 24), (24, 20), (24, 23),
      (25, 26), (25, 27), (26, 25), (26, 27), (27, 25), (27, 26)]"

subsection \<open>\<open>extract_wed\<close>: the face pointer builder\<close>

record wed =
  start_c :: "(edge, edge) dict"
  start_cc :: "(edge, edge) dict"
  end_c :: "(edge, edge) dict"
  end_cc :: "(edge, edge) dict"
  region_edge :: "(int, edge) dict"
  node_edge :: "(node, edge) dict"
  right_polygon :: "(edge, int) dict"
  left_polygon :: "(edge, int) dict"
  start_node :: "(edge, node) dict"
  end_node :: "(edge, node) dict"
  node_coords :: "(node, point) dict"
  edge_list :: "edge list"

definition empty_wed :: wed where
  "empty_wed =
     \<lparr> start_c = [], start_cc = [], end_c = [], end_cc = [], region_edge = [],
       node_edge = [], right_polygon = [], left_polygon = [], start_node = [],
       end_node = [], node_coords = [], edge_list = [] \<rparr>"

text \<open>Lines 292-295: the two endpoint tables, without the pairs of equal endpoints.\<close>

definition endpoint_tables :: "edge list \<Rightarrow> wed \<Rightarrow> wed" where
  "endpoint_tables es w =
     foldl (\<lambda>w e. if fst e \<noteq> snd e
                   then w\<lparr> start_node := AList.update e (fst e) (start_node w),
                           end_node := AList.update e (snd e) (end_node w) \<rparr>
                   else w) w es"

text \<open>One pass of the loop of lines 316-328 over the padded cycle \<open>r\<close>.\<close>

definition face_edge :: "node list \<Rightarrow> int \<Rightarrow> wed \<Rightarrow> nat \<Rightarrow> wed" where
  "face_edge r ri w i =
     (let e = (r ! (i + 1), r ! (i + 2));
          prv = (r ! i, r ! (i + 1));
          nxt = (r ! (i + 2), r ! (i + 3));
          tw = (snd e, fst e)
      in w\<lparr> node_edge := setdefault (snd e) e (setdefault (fst e) e (node_edge w)),
            start_c := AList.update e prv (start_c w),
            end_cc := AList.update e nxt (end_cc w),
            right_polygon := AList.update e ri (right_polygon w),
            left_polygon := AList.update tw ri (left_polygon w),
            start_cc := AList.update tw nxt (start_cc w),
            end_c := AList.update tw prv (end_c w) \<rparr>)"

text \<open>
  Lines 311-329 for one region: the region is reversed, padded with \<open>region[-2]\<close> in
  front and \<open>region[1]\<close> behind (IndexError below two entries), walked, and
  \<open>region_edge\<close> gets the last edge of the walk.
\<close>

definition face_region :: "int \<Rightarrow> node list \<Rightarrow> wed \<Rightarrow> error + wed" where
  "face_region ri region0 w =
     (let region = rev region0; n = length region in
      if n < 2 then Inl IndexError
      else
        let r = [region ! (n - 2)] @ region @ [region ! 1];
            w1 = foldl (face_edge r ri) w [0..<n - 1]
        in Inr (w1\<lparr> region_edge := AList.update ri (r ! (n - 1), r ! n) (region_edge w1) \<rparr>))"

fun face_regions :: "int \<Rightarrow> node list list \<Rightarrow> wed \<Rightarrow> error + wed" where
  "face_regions ri [] w = Inr w"
| "face_regions ri (region # rest) w =
     bind_err (face_region ri region w) (face_regions (ri + 1) rest)"

text \<open>Lines 343-347; \<open>ri + 1\<close> after the loop is the number of regions.\<close>

definition noleft_of :: "wed \<Rightarrow> edge list" where
  "noleft_of w = filter (\<lambda>k. map_of (left_polygon w) k = None) (map fst (right_polygon w))"

definition assign_exterior :: "int \<Rightarrow> edge list \<Rightarrow> wed \<Rightarrow> wed" where
  "assign_exterior ext noleft w =
     foldl (\<lambda>w e. w\<lparr> left_polygon := AList.update e ext (left_polygon w) \<rparr>) w noleft"

subsection \<open>\<open>extract_wed\<close>: the chains of the exterior boundary\<close>

text \<open>
  \<open>pos\<close> is the list of the coordinate values, taken before the extraction empties the
  dictionary, and is indexed with node ids as a Python list is.
\<close>

definition pos_get :: "point list \<Rightarrow> int \<Rightarrow> error + point" where
  "pos_get pos i =
     (let n = int (length pos) in
      if 0 \<le> i \<and> i < n then Inr (pos ! nat i)
      else if - n \<le> i \<and> i < 0 then Inr (pos ! nat (n + i))
      else Inl IndexError)"

definition dotproduct :: "point \<Rightarrow> point \<Rightarrow> real" where
  "dotproduct v1 v2 = fst v1 * fst v2 + snd v1 * snd v2"

definition vlength :: "point \<Rightarrow> real" where
  "vlength v = sqrt (dotproduct v v)"

definition vangle :: "point \<Rightarrow> point \<Rightarrow> error + real" where
  "vangle v1 v2 =
     (if vlength v1 * vlength v2 = 0 then Inl ZeroDivisionError
      else Inr (arccos (dotproduct v1 v2 / (vlength v1 * vlength v2))))"

text \<open>
  Lines 371-379: the index \<open>j\<close> of the first candidate whose angle is above every angle
  before it and above 0; \<open>i\<close> counts the candidates passed.
\<close>

fun max_angle_loop :: "point list \<Rightarrow> point \<Rightarrow> point \<Rightarrow> edge list \<Rightarrow> nat \<Rightarrow> real \<Rightarrow> nat \<Rightarrow>
    error + nat" where
  "max_angle_loop pos origin v0 [] i maxangle j = Inr j"
| "max_angle_loop pos origin v0 (candidate # rest) i maxangle j =
     bind_err (pos_get pos (snd candidate))
       (\<lambda>p. bind_err (vangle v0 (psub p origin))
          (\<lambda>a. if a > maxangle then max_angle_loop pos origin v0 rest (i + 1) a i
                else max_angle_loop pos origin v0 rest (i + 1) maxangle j))"

text \<open>Lines 361-379; \<open>current\<close> is the edge the path started with.\<close>

definition choose_next :: "point list \<Rightarrow> edge \<Rightarrow> edge list \<Rightarrow> error + nat" where
  "choose_next pos current candidates =
     (if length candidates > 1 then
        bind_err (pos_get pos (snd current))
          (\<lambda>origin. bind_err (pos_get pos (fst current))
             (\<lambda>p0. max_angle_loop pos origin (psub p0 origin) candidates 0 0 0))
      else Inr 0)"

fun trace_path :: "nat \<Rightarrow> point list \<Rightarrow> edge \<Rightarrow> node \<Rightarrow> node \<Rightarrow> edge list \<Rightarrow> edge list \<Rightarrow>
    error + (edge list \<times> edge list)" where
  "trace_path 0 pos current path_head tail path noleft = Inl OutOfFuel"
| "trace_path (Suc n) pos current path_head tail path noleft =
     (if tail = path_head then Inr (path, noleft)
      else
        let candidates = filter (\<lambda>e. fst e = tail) noleft in
        bind_err (choose_next pos current candidates)
          (\<lambda>j. if j < length candidates then
                  let next_edge = candidates ! j in
                  trace_path n pos current path_head (snd next_edge) (path @ [next_edge])
                    (remove1 next_edge noleft)
                else Inl IndexError))"

fun find_unions :: "nat \<Rightarrow> point list \<Rightarrow> edge list \<Rightarrow> edge list list \<Rightarrow>
    error + edge list list" where
  "find_unions 0 pos noleft unions = Inl OutOfFuel"
| "find_unions (Suc n) pos noleft unions =
     (if noleft = [] then Inr unions
      else
        let current = last noleft in
        bind_err (trace_path n pos current (fst current) (snd current) [current] (butlast noleft))
          (\<lambda>(path, noleft'). find_unions n pos noleft' (unions @ [path])))"

text \<open>Lines 395-401 for one chain \<open>union\<close>; \<open>union[1]\<close> raises IndexError on a chain of one edge.\<close>

definition union_inner :: "edge list \<Rightarrow> wed \<Rightarrow> nat \<Rightarrow> wed" where
  "union_inner chain w prev =
     w\<lparr> start_cc := AList.update (chain ! (prev + 1)) (chain ! prev) (start_cc w),
        end_c := AList.update (chain ! (prev + 1)) (chain ! (prev + 2)) (end_c w) \<rparr>"

definition install_union :: "wed \<Rightarrow> edge list \<Rightarrow> error + wed" where
  "install_union w chain =
     (let n = length chain in
      if n < 2 then Inl IndexError
      else
        let w1 = foldl (union_inner chain) w [0..<n - 2];
            w2 = w1\<lparr> start_cc := AList.update (chain ! 0) (chain ! (n - 1)) (start_cc w1) \<rparr>;
            w3 = w2\<lparr> end_c := AList.update (chain ! 0) (chain ! 1) (end_c w2) \<rparr>;
            w4 = w3\<lparr> end_c := AList.update (chain ! (n - 1)) (chain ! 0) (end_c w3) \<rparr>
        in Inr (w4\<lparr> start_cc := AList.update (chain ! (n - 1)) (chain ! (n - 2)) (start_cc w4) \<rparr>))"

fun install_unions :: "edge list list \<Rightarrow> wed \<Rightarrow> error + wed" where
  "install_unions [] w = Inr w"
| "install_unions (chain # rest) w = bind_err (install_union w chain) (install_unions rest)"

subsection \<open>\<open>extract_wed\<close>: the filaments\<close>

text \<open>
  A Python \<open>set\<close> of node ids or of region numbers is kept as the list of its members
  in ascending order, the order in which CPython iterates over a set of small
  non-negative integers and in which \<open>pop\<close> empties it.
\<close>

definition py_set :: "int list \<Rightarrow> int list" where
  "py_set xs = sort (remdups xs)"

text \<open>
  \<open>_filament_links_node\<close>: the links around a node, clockwise, until the walk is back
  on the two nodes of the first link. A table value is never \<open>None\<close>; a missing key
  raises.
\<close>

definition same_nodes :: "edge \<Rightarrow> edge \<Rightarrow> bool" where
  "same_nodes l l0 \<longleftrightarrow> {fst l, snd l} = {fst l0, snd l0}"

fun links_loop :: "nat \<Rightarrow> (edge, edge) dict \<Rightarrow> (edge, edge) dict \<Rightarrow> node \<Rightarrow> edge \<Rightarrow> edge \<Rightarrow>
    edge list \<Rightarrow> error + edge list" where
  "links_loop 0 sc_tab ec_tab v l0 l links = Inl OutOfFuel"
| "links_loop (Suc n) sc_tab ec_tab v l0 l links =
     bind_err (if v = fst l then getitem sc_tab l else getitem ec_tab l)
       (\<lambda>l'. if same_nodes l' l0 then Inr links
             else links_loop n sc_tab ec_tab v l0 l' (links @ [l']))"

definition filament_links_node :: "nat \<Rightarrow> node \<Rightarrow> (node, edge) dict \<Rightarrow> (edge, edge) dict \<Rightarrow>
    (edge, edge) dict \<Rightarrow> error + edge list" where
  "filament_links_node fuel v ne_tab sc_tab ec_tab =
     (case map_of ne_tab v of
        None \<Rightarrow> Inr []
      | Some l0 \<Rightarrow> links_loop fuel sc_tab ec_tab v l0 l0 [l0])"

text \<open>\<open>math.atan2\<close> and the angle in degrees, moved into the range from 0 to 360.\<close>

definition atan2 :: "real \<Rightarrow> real \<Rightarrow> real" where
  "atan2 y x =
     (if x > 0 then arctan (y / x)
      else if x < 0 \<and> y \<ge> 0 then arctan (y / x) + pi
      else if x < 0 then arctan (y / x) - pi
      else if y > 0 then pi / 2
      else if y < 0 then - pi / 2
      else 0)"

definition theta_deg :: "point \<Rightarrow> real" where
  "theta_deg d = (let t = atan2 (snd d) (fst d) * 180 / pi in if t < 0 then t + 360 else t)"

definition link_angle :: "real \<Rightarrow> point \<Rightarrow> real" where
  "link_angle f_rotation d = (let t = theta_deg d + f_rotation in if t > 360 then t - 360 else t)"

text \<open>Lines 458-476: the rotated angle of the far node of every link.\<close>

fun link_angles :: "(node, point) dict \<Rightarrow> node \<Rightarrow> point \<Rightarrow> real \<Rightarrow> edge list \<Rightarrow>
    (edge, real) dict \<Rightarrow> error + (edge, real) dict" where
  "link_angles coords_org incident_node origin f_rotation [] acc = Inr acc"
| "link_angles coords_org incident_node origin f_rotation (link # rest) acc =
     (let link_node = (if fst link = incident_node then snd link else fst link) in
      bind_err (getitem coords_org link_node)
        (\<lambda>c. link_angles coords_org incident_node origin f_rotation rest
                (AList.update link (link_angle f_rotation (psub c origin)) acc)))"

text \<open>\<open>min\<close> and \<open>max\<close> with a key: the first key of the least, of the greatest value.\<close>

fun min_key :: "('k \<times> real) \<Rightarrow> ('k \<times> real) list \<Rightarrow> 'k" where
  "min_key best [] = fst best"
| "min_key best (x # xs) = min_key (if snd x < snd best then x else best) xs"

fun max_key :: "('k \<times> real) \<Rightarrow> ('k \<times> real) list \<Rightarrow> 'k" where
  "max_key best [] = fst best"
| "max_key best (x # xs) = max_key (if snd x > snd best then x else best) xs"

text \<open>Lines 482-485: the link turned so that it ends at the incident node.\<close>

definition towards :: "node \<Rightarrow> edge \<Rightarrow> error + edge" where
  "towards incident_node l =
     (if fst l = incident_node then Inr (snd l, fst l)
      else if snd l = incident_node then Inr l
      else Inl ValueError)"

text \<open>Lines 487-498.\<close>

definition splice :: "node \<Rightarrow> node \<Rightarrow> edge \<Rightarrow> edge \<Rightarrow> wed \<Rightarrow> wed" where
  "splice incident_node f cwise ccwise w =
     (let w1 = w\<lparr> end_c := AList.update (f, incident_node) (snd cwise, fst cwise) (end_c w) \<rparr>;
          w2 = w1\<lparr> end_cc := AList.update (f, incident_node) (snd ccwise, fst ccwise) (end_cc w1) \<rparr>;
          w3 = w2\<lparr> start_c := AList.update (incident_node, f) cwise (start_c w2) \<rparr>;
          w4 = w3\<lparr> start_cc := AList.update (incident_node, f) ccwise (start_cc w3) \<rparr>;
          w5 = w4\<lparr> end_cc := AList.update cwise (incident_node, f) (end_cc w4) \<rparr>;
          w6 = w5\<lparr> start_cc := AList.update (snd cwise, fst cwise) (incident_node, f) (start_cc w5) \<rparr>;
          w7 = w6\<lparr> start_c := AList.update (snd ccwise, fst ccwise) (incident_node, f) (start_c w6) \<rparr>
      in w7\<lparr> end_c := AList.update ccwise (incident_node, f) (end_c w7) \<rparr>)"

text \<open>Lines 503-507: the region number on both sides of both directions of every edge.\<close>

fun paint_filament :: "int \<Rightarrow> node list \<Rightarrow> wed \<Rightarrow> wed" where
  "paint_filament r (a # b # rest) w =
     paint_filament r (b # rest)
       (w\<lparr> right_polygon := AList.update (b, a) r (AList.update (a, b) r (right_polygon w)),
           left_polygon := AList.update (b, a) r (AList.update (a, b) r (left_polygon w)) \<rparr>)"
| "paint_filament r _ w = w"

fun getitems :: "('k, 'v) dict \<Rightarrow> 'k list \<Rightarrow> error + 'v list" where
  "getitems d [] = Inr []"
| "getitems d (k # ks) =
     bind_err (getitem d k) (\<lambda>v. bind_err (getitems d ks) (\<lambda>vs. Inr (v # vs)))"

text \<open>
  Lines 500-507. The argument of \<open>contains_point\<close> is \<open>coords_org[filament[1]] or ...\<close>;
  a pair of coordinates is a non-empty tuple, so the argument is \<open>coords_org[filament[1]]\<close>
  and what follows \<open>or\<close> is never evaluated. \<open>inside\<close> is the point-in-polygon test.
\<close>

fun paint_regions :: "(point list \<Rightarrow> point \<Rightarrow> bool) \<Rightarrow> (node, point) dict \<Rightarrow> int list list \<Rightarrow>
    node list \<Rightarrow> int list \<Rightarrow> wed \<Rightarrow> error + wed" where
  "paint_regions inside coords_org region_sets filament [] w = Inr w"
| "paint_regions inside coords_org region_sets filament (r # rs) w =
     bind_err (getitems coords_org (region_sets ! nat r))
       (\<lambda>poly. bind_err (getitem coords_org (filament ! 1))
          (\<lambda>p. paint_regions inside coords_org region_sets filament rs
                 (if inside poly p then paint_filament r filament w else w)))"

text \<open>Lines 440-445: the neighbour of the incident node on the filament.\<close>

definition filament_neighbour :: "node list \<Rightarrow> node \<Rightarrow> node" where
  "filament_neighbour filament incident_node =
     (if filament ! 0 = incident_node then filament ! 1
      else if filament ! 1 = incident_node then filament ! 0
      else filament ! (length filament - 2))"

text \<open>Lines 432-507 for one incident node.\<close>

definition insert_at :: "(point list \<Rightarrow> point \<Rightarrow> bool) \<Rightarrow> nat \<Rightarrow> (node, point) dict \<Rightarrow>
    int list list \<Rightarrow> node list \<Rightarrow> int list \<Rightarrow> wed \<Rightarrow> node \<Rightarrow> error + wed" where
  "insert_at inside fuel coords_org region_sets filament incident_regions w incident_node =
     bind_err (filament_links_node fuel incident_node (node_edge w) (start_c w) (end_c w))
       (\<lambda>incident_links.
     bind_err (getitem coords_org incident_node)
       (\<lambda>origin.
     let f = filament_neighbour filament incident_node in
     bind_err (getitem coords_org f)
       (\<lambda>filament_end.
     let f_rotation = 360 - theta_deg (psub filament_end origin) in
     bind_err (link_angles coords_org incident_node origin f_rotation incident_links [])
       (\<lambda>angles.
     case angles of
       [] \<Rightarrow> Inl ValueError
     | first # others \<Rightarrow>
         bind_err (towards incident_node (min_key first others))
           (\<lambda>ccwise.
         bind_err (towards incident_node (max_key first others))
           (\<lambda>cwise.
         paint_regions inside coords_org region_sets filament incident_regions
           (splice incident_node f cwise ccwise w)))))))"

fun insert_all :: "(point list \<Rightarrow> point \<Rightarrow> bool) \<Rightarrow> nat \<Rightarrow> (node, point) dict \<Rightarrow>
    int list list \<Rightarrow> node list \<Rightarrow> int list \<Rightarrow> node list \<Rightarrow> wed \<Rightarrow> error + wed" where
  "insert_all inside fuel coords_org region_sets filament incident_regions [] w = Inr w"
| "insert_all inside fuel coords_org region_sets filament incident_regions (v # vs) w =
     bind_err (insert_at inside fuel coords_org region_sets filament incident_regions w v)
       (insert_all inside fuel coords_org region_sets filament incident_regions vs)"

definition dict_update :: "('k, 'v) dict \<Rightarrow> ('k, 'v) dict \<Rightarrow> ('k, 'v) dict" where
  "dict_update d new = foldl (\<lambda>d (k, v). AList.update k v d) d new"

text \<open>Lines 410-507 for one filament.\<close>

definition insert_filament :: "(point list \<Rightarrow> point \<Rightarrow> bool) \<Rightarrow> nat \<Rightarrow> (node, point) dict \<Rightarrow>
    int list list \<Rightarrow> wed \<Rightarrow> node list \<Rightarrow> error + wed" where
  "insert_filament inside fuel coords_org region_sets w filament =
     bind_err (filament_pointers filament (node_edge w))
       (\<lambda>p.
         let w1 = w\<lparr> node_edge := fp_node_edge p,
                     end_cc := dict_update (end_cc w) (ecc p),
                     start_c := dict_update (start_c w) (sc p),
                     start_cc := dict_update (start_cc w) (scc p),
                     end_c := dict_update (end_c w) (ec p) \<rparr>;
             sf = py_set filament;
             incident_nodes = py_set (concat (map (\<lambda>region. filter (\<lambda>v. v \<in> set region) sf) region_sets));
             incident_regions = filter (\<lambda>r. filter (\<lambda>v. v \<in> set (region_sets ! nat r)) sf \<noteq> [])
                                  (map int [0..<length region_sets])
         in insert_all inside fuel coords_org region_sets filament incident_regions incident_nodes w1)"

fun insert_filaments :: "(point list \<Rightarrow> point \<Rightarrow> bool) \<Rightarrow> nat \<Rightarrow> (node, point) dict \<Rightarrow>
    int list list \<Rightarrow> node list list \<Rightarrow> wed \<Rightarrow> error + wed" where
  "insert_filaments inside fuel coords_org region_sets [] w = Inr w"
| "insert_filaments inside fuel coords_org region_sets (filament # rest) w =
     bind_err (insert_filament inside fuel coords_org region_sets w filament)
       (insert_filaments inside fuel coords_org region_sets rest)"

subsection \<open>\<open>extract_wed\<close> and the constructor\<close>

text \<open>
  \<open>extract_wed\<close> copies \<open>coords\<close> into \<open>coords_org\<close> and hands \<open>coords\<close> itself and the
  edge list it was given to \<open>regions_from_graph\<close>. Next to the structure, the model
  returns what these two objects hold at the end.
\<close>

definition extract_wed :: "(point list \<Rightarrow> point \<Rightarrow> bool) \<Rightarrow> nat \<Rightarrow> edge list \<Rightarrow> (node, point) dict \<Rightarrow>
    error + (wed \<times> (node, point) dict \<times> edge list)" where
  "extract_wed inside fuel es coords =
     (let coords_org = coords; pos = map snd coords in
      bind_err (run_extraction fuel coords es)
        (\<lambda>s.
      let mcb = results_of s;
          w0 = endpoint_tables (res_edges mcb) empty_wed in
      bind_err (face_regions 0 (regions mcb) w0)
        (\<lambda>w1.
      let noleft_poly = noleft_of w1;
          w2 = assign_exterior (int (length (regions mcb))) noleft_poly w1 in
      bind_err (find_unions fuel pos noleft_poly [])
        (\<lambda>unions.
      bind_err (install_unions unions w2)
        (\<lambda>w3.
      bind_err (insert_filaments inside fuel coords_org (map py_set (regions mcb)) (filaments mcb) w3)
        (\<lambda>w4. Inr (w4\<lparr> node_coords := coords_org \<rparr>, nodes s, edges s)))))))"

text \<open>
  The constructor, called with both arguments. \<open>edge_list\<close> is a copy of the checked
  edges; the checked edges are a new list when \<open>check_edges\<close> doubles and the caller's
  own list otherwise.
\<close>

record construction =
  built :: wed
  caller_coords :: "(node, point) dict"
  caller_edges :: "edge list"

definition WED_init :: "(point list \<Rightarrow> point \<Rightarrow> bool) \<Rightarrow> nat \<Rightarrow> edge list \<Rightarrow> (node, point) dict \<Rightarrow>
    error + construction" where
  "WED_init inside fuel es coords =
     (let checked = check_edges es in
      bind_err (extract_wed inside fuel checked coords)
        (\<lambda>(w, coords_left, edges_left).
           Inr \<lparr> built = w\<lparr> edge_list := checked \<rparr>,
                 caller_coords = coords_left,
                 caller_edges = (if makes_double es then es else edges_left) \<rparr>))"

subsection \<open>\<open>enum_edges_region\<close>\<close>



subsection \<open>The point-in-polygon test\<close>

text \<open>
  Modelled from the spec: the point-in-polygon test (\<open>Polygon.contains_point\<close> of
  \<open>pysal.cg\<close>) is an external collaborator and not among the sources. It is modelled as
  the even-odd rule: a point is inside when a ray from it to the right crosses the
  boundary an odd number of times.
\<close>

definition ray_crosses :: "point \<Rightarrow> point \<Rightarrow> point \<Rightarrow> bool" where
  "ray_crosses p a b \<longleftrightarrow>
     (snd a > snd p) \<noteq> (snd b > snd p) \<and>
     fst p < (fst b - fst a) * (snd p - snd a) / (snd b - snd a) + fst a"

fun crossings :: "point \<Rightarrow> point list \<Rightarrow> nat" where
  "crossings p (a # b # rest) = (if ray_crosses p a b then 1 else 0) + crossings p (b # rest)"
| "crossings p _ = 0"

definition contains_point :: "point list \<Rightarrow> point \<Rightarrow> bool" where
  "contains_point poly p \<longleftrightarrow> poly \<noteq> [] \<and> odd (crossings p (poly @ [hd poly]))"

subsection \<open>Auxiliary notions for the proofs\<close>

text \<open>The body of \<open>fil_wrap\<close> with the four nodes it reads and the test \<open>nv == 2\<close> named.\<close>

definition wrap_body :: "node \<Rightarrow> node \<Rightarrow> node \<Rightarrow> node \<Rightarrow> bool \<Rightarrow> fil_ptrs \<Rightarrow> fil_ptrs" where
  "wrap_body f0 f1 l2 l1 two p =
     (let p1 = p\<lparr> ecc := AList.update (l2, l1) (l1, l2) (ecc p) \<rparr>;
          p2 = p1\<lparr> ec := AList.update (l2, l1) (l2, l1) (ec p1) \<rparr>;
          p3 = p2\<lparr> ecc := AList.update (f1, f0) (f0, f1) (ecc p2) \<rparr>;
          p4 = p3\<lparr> ec := AList.update (f1, f0) (f1, f0) (ec p3) \<rparr>;
          p5 = p4\<lparr> sc := AList.update (f0, f1) (f0, f1) (sc p4) \<rparr>
      in if two then
           p5\<lparr> sc := AList.update (f0, f1) (f0, f1) (sc p5),
               ec := AList.update (f0, f1) (f0, f1) (ec p5),
               ecc := AList.update (f0, f1) (f1, f0) (ecc p5),
               scc := AList.update (f0, f1) (f0, f1) (scc p5),
               fp_node_edge := setdefault f1 (f0, f1) (setdefault f0 (f0, f1) (fp_node_edge p5)) \<rparr>
         else p5)"

text \<open>
  The triangle S1 with a self-loop at node 1, and two triangles that share node 0.
\<close>

definition loop_edges :: "edge list" where
  "loop_edges = [(0, 1), (1, 2), (2, 0), (1, 1)]"

definition bowtie_coords :: "(node, point) dict" where
  "bowtie_coords = [(0, (0, 0)), (1, (0, -1)), (2, (4, -3)), (3, (0, 4)), (4, (3, 0))]"

definition bowtie_edges :: "edge list" where
  "bowtie_edges = [(0, 1), (1, 2), (2, 0), (0, 3), (3, 4), (4, 0)]"

text \<open>
  The counter-clockwise angle from a vector \<open>u\<close> to a vector \<open>v\<close>, between 0 and a
  full turn, as the comment of line 363 and the spec name it; \<open>extract_wed\<close> itself
  never computes it.
\<close>

definition spec_ccw_angle :: "point \<Rightarrow> point \<Rightarrow> real" where
  "spec_ccw_angle u v =
     (let t = atan2 (cross u v) (dotproduct u v) in if t < 0 then t + 2 * pi else t)"

text \<open>
  A closed cycle: at least two entries, the first entry again at the end and no other
  repetition. A property of the extraction state is stable when the elementary changes
  of the state keep it, a recorded cycle being closed.
\<close>

definition closed_cycle :: "node list \<Rightarrow> bool" where
  "closed_cycle c \<longleftrightarrow> 2 \<le> length c \<and> hd c = last c \<and> distinct (butlast c)"

definition stable :: "(rg_state \<Rightarrow> bool) \<Rightarrow> bool" where
  "stable P \<longleftrightarrow>
     (\<forall>s v0 v1. P s \<longrightarrow> P (remove_edge v0 v1 s)) \<and>
     (\<forall>s v. P s \<longrightarrow> P (remove_heap v s)) \<and>
     (\<forall>s v s'. P s \<longrightarrow> remove_node v s = Inr s' \<longrightarrow> P s') \<and>
     (\<forall>s x. P s \<longrightarrow> P (s\<lparr> primitives := x \<rparr>)) \<and>
     (\<forall>s x. P s \<longrightarrow> P (s\<lparr> cycle_edge := x \<rparr>)) \<and>
     (\<forall>s x. P s \<longrightarrow> P (s\<lparr> sorted_nodes := x \<rparr>)) \<and>
     (\<forall>s c. P s \<longrightarrow> closed_cycle c \<longrightarrow> P (s\<lparr> minimal_cycles := minimal_cycles s @ [c] \<rparr>))"

text \<open>
  The face tables agree across twins when every right face of a half-edge is the left
  face of its twin.
\<close>

definition twin_faces :: "wed \<Rightarrow> bool" where
  "twin_faces w \<longleftrightarrow>
     (\<forall>e f. map_of (right_polygon w) e = Some f \<longrightarrow> map_of (left_polygon w) (twin e) = Some f)"


section \<open>Properties\<close>

subsection \<open>Basic facts\<close>

lemma twin_twin [simp]: "twin (twin e) = e"
  by (simp add: twin_def)

lemma twin_eq_iff: "twin a = b \<longleftrightarrow> a = twin b"
  by (auto simp: twin_def)

lemma twin_self: "twin e = e \<longleftrightarrow> fst e = snd e"
  by (cases e) (auto simp: twin_def)

lemma map_of_upd: "map_of (AList.update k v al) k' = (if k' = k then Some v else map_of al k')"
  by (simp add: update_conv')

subsection \<open>\<open>check_edges\<close>\<close>

text \<open>
  C3. On the single pair \<open>(0, 1)\<close> nothing has been seen twice and half the length,
  rounded down, is 0, so the test of line 81 finds the two numbers equal and the list is
  returned as it came: the reverse \<open>(1, 0)\<close> is missing from the result, although no
  pair of the input has its reverse present.
\<close>

theorem check_edges_single_pair:
  "seen_twice [(0, 1)] = {} \<and> \<not> makes_double [(0, 1)] \<and>
   check_edges [(0, 1)] = [(0, 1)] \<and> (1, 0) \<notin> set (check_edges [(0, 1)])"
  by (simp add: check_edges_def makes_double_def seen_twice_def twin_def)

subsection \<open>\<open>filament_pointers\<close>\<close>

lemma fil_wrap_body:
  "fil_wrap filament p =
     wrap_body (filament ! 0) (filament ! 1) (filament ! (length filament - 2))
       (filament ! (length filament - 1)) (length filament = 2) p"
  by (simp only: fil_wrap_def wrap_body_def Let_def)

lemma wrap_body_ec_last: "map_of (ec (wrap_body f0 f1 l2 l1 two p)) (l2, l1) = Some (l2, l1)"
  by (cases two; cases "f0 = f1") (simp_all add: wrap_body_def Let_def map_of_upd)

lemma wrap_body_ecc_last: "map_of (ecc (wrap_body f0 f1 l2 l1 two p)) (l2, l1) = Some (l1, l2)"
  by (cases two; cases "f0 = f1") (simp_all add: wrap_body_def Let_def map_of_upd)

lemma wrap_body_sc_first: "map_of (sc (wrap_body f0 f1 l2 l1 two p)) (f0, f1) = Some (f0, f1)"
  by (cases two; cases "f0 = f1") (simp_all add: wrap_body_def Let_def map_of_upd)

lemma wrap_body_ec_first: "map_of (ec (wrap_body f0 f1 l2 l1 two p)) (f1, f0) = Some (f1, f0)"
  by (cases two; cases "f0 = f1") (simp_all add: wrap_body_def Let_def map_of_upd)

lemma wrap_body_ecc_first: "map_of (ecc (wrap_body f0 f1 l2 l1 two p)) (f1, f0) = Some (f0, f1)"
  by (cases two; cases "f0 = f1") (simp_all add: wrap_body_def Let_def map_of_upd)

lemmas wrap_body_ends = wrap_body_ec_last wrap_body_ecc_last wrap_body_sc_first
  wrap_body_ec_first wrap_body_ecc_first

text \<open>
  C9, as the code has it. For a filament of at least two nodes \<open>filament_pointers\<close>
  returns, and in what it returns the clockwise pointers at the free ends lead to the
  edge itself (\<open>ec\<close> of the last edge and of the reverse of the first edge, \<open>sc\<close> of the
  first edge), while the counter-clockwise pointers \<open>ecc\<close> of the last edge and of the
  reverse of the first edge lead to the reversed pair.
\<close>

theorem filament_pointers_end_edges:
  assumes "2 \<le> length filament"
  shows "\<exists>p. filament_pointers filament tab = Inr p \<and>
    map_of (ec p) (filament ! (length filament - 2), filament ! (length filament - 1))
      = Some (filament ! (length filament - 2), filament ! (length filament - 1)) \<and>
    map_of (ecc p) (filament ! (length filament - 2), filament ! (length filament - 1))
      = Some (filament ! (length filament - 1), filament ! (length filament - 2)) \<and>
    map_of (sc p) (filament ! 0, filament ! 1) = Some (filament ! 0, filament ! 1) \<and>
    map_of (ec p) (filament ! 1, filament ! 0) = Some (filament ! 1, filament ! 0) \<and>
    map_of (ecc p) (filament ! 1, filament ! 0) = Some (filament ! 0, filament ! 1)"
proof -
  define q where
    "q = fil_loop filament \<lparr> ecc = [], ec = [], scc = [], sc = [], fp_node_edge = tab \<rparr>"
  define p where
    "p = wrap_body (filament ! 0) (filament ! 1) (filament ! (length filament - 2))
           (filament ! (length filament - 1)) (length filament = 2) q"
  have fp: "filament_pointers filament tab = Inr p"
    using assms by (simp add: filament_pointers_def fil_wrap_body p_def q_def)
  show ?thesis
    unfolding fp by (rule exI[of _ p]) (simp only: p_def wrap_body_ends simp_thms)
qed

theorem filament_pointers_end_edges_witness:
  "(2::nat) \<le> length [6, 5, 4 :: node] \<and>
   (\<exists>p. filament_pointers [6, 5, 4] [] = Inr p \<and>
      map_of (ec p) (5, 4) = Some (5, 4) \<and> map_of (ecc p) (5, 4) = Some (4, 5) \<and>
      map_of (sc p) (6, 5) = Some (6, 5) \<and> map_of (ec p) (5, 6) = Some (5, 6) \<and>
      map_of (ecc p) (5, 6) = Some (6, 5))"
  using filament_pointers_end_edges [of "[6, 5, 4]" "[]"] by simp

text \<open>
  C9 as stated fails: on the filament \<open>[1, 3]\<close> the pointer \<open>ecc\<close> of the edge \<open>(1, 3)\<close>
  is the reversed pair \<open>(3, 1)\<close>, not the edge.
\<close>

theorem filament_end_cc_counterexample:
  "filament_pointers [1, 3] [] =
   Inr \<lparr>ecc = [((1, 3), (3, 1)), ((3, 1), (1, 3))],
        ec = [((1, 3), (1, 3)), ((3, 1), (3, 1))], scc = [((1, 3), (1, 3))],
        sc = [((1, 3), (1, 3))], fp_node_edge = [(1, (1, 3)), (3, (1, 3))]\<rparr> \<and>
   map_of [((1, 3), (3, 1)), ((3, 1), (1, 3 :: node))] (1, 3 :: node) \<noteq> Some (1, 3)"
  by (simp add: filament_pointers_def fil_wrap_def Let_def setdefault_def)

subsection \<open>What every run of the extraction keeps\<close>

lemma bind_err_Inr_iff:
  "bind_err m f = Inr y \<longleftrightarrow> (\<exists>x. m = Inr x \<and> f x = Inr y)"
  by (cases m) (simp_all add: bind_err_def)

lemma stableD:
  assumes "stable P" "P s"
  shows "P (remove_edge v0 v1 s)" "P (remove_heap v s)"
    "remove_node v s = Inr s' \<Longrightarrow> P s'"
    "P (s\<lparr> primitives := x \<rparr>)" "P (s\<lparr> cycle_edge := y \<rparr>)" "P (s\<lparr> sorted_nodes := z \<rparr>)"
    "closed_cycle c \<Longrightarrow> P (s\<lparr> minimal_cycles := minimal_cycles s @ [c] \<rparr>)"
  using assms by (simp_all add: stable_def)

lemma cyc_walk_stable:
  "stable P \<Longrightarrow> P s \<Longrightarrow> cyc_walk n v0 v1 s = Inr (a, b, s') \<Longrightarrow> P s'"
proof (induction n arbitrary: v0 v1 s)
  case 0
  then show ?case by simp
next
  case (Suc n)
  show ?case
  proof (cases "adj_nodes v0 (edges s)")
    case Nil
    then show ?thesis using Suc.prems by simp
  next
    case (Cons x xs)
    show ?thesis
    proof (cases "xs = [] \<and> in_cycle v0 x s")
      case True
      then obtain s1 where r: "remove_node v0 (remove_edge v0 x s) = Inr s1"
        and w: "cyc_walk n x x (remove_heap v0 s1) = Inr (a, b, s')"
        using Suc.prems(3) Cons by (auto simp: bind_err_Inr_iff)
      have "P s1" using stableD(1,3)[OF Suc.prems(1)] Suc.prems(2) r by blast
      then have "P (remove_heap v0 s1)" using stableD(2)[OF Suc.prems(1)] by blast
      then show ?thesis using Suc.IH[OF Suc.prems(1) _ w] by blast
    next
      case False
      then have "s' = s" using Suc.prems(3) Cons by (cases xs) (auto split: if_splits)
      then show ?thesis using Suc.prems(2) by simp
    qed
  qed
qed

lemma fil_walk_stable:
  "stable P \<Longrightarrow> P s \<Longrightarrow> fil_walk n v0 v1 prim s = Inr (a, b, prim', s') \<Longrightarrow> P s'"
proof (induction n arbitrary: v0 v1 prim s)
  case 0
  then show ?case by simp
next
  case (Suc n)
  show ?case
  proof (cases "adj_nodes v0 (edges s)")
    case Nil
    then show ?thesis using Suc.prems by simp
  next
    case (Cons x xs)
    show ?thesis
    proof (cases "xs = []")
      case True
      then obtain s1 where r: "remove_node v0 (remove_edge v0 x (remove_heap v0 s)) = Inr s1"
        and w: "fil_walk n x x (prim @ [v0]) s1 = Inr (a, b, prim', s')"
        using Suc.prems(3) Cons by (auto simp: bind_err_Inr_iff)
      have "P (remove_edge v0 x (remove_heap v0 s))"
        using stableD(1,2)[OF Suc.prems(1)] Suc.prems(2) by blast
      then have "P s1" using stableD(3)[OF Suc.prems(1) _ r] by blast
      then show ?thesis using Suc.IH[OF Suc.prems(1) _ w] by blast
    next
      case False
      then have "s' = s" using Suc.prems(3) Cons by (cases xs) auto
      then show ?thesis using Suc.prems(2) by simp
    qed
  qed
qed

lemma extractfilament_stable:
  assumes st: "stable P" and p: "P s" and r: "extractfilament n v0 v1 s = Inr s'"
  shows "P s'"
proof (cases "in_cycle v0 v1 s")
  case True
  define t where "t = (if length (adj_nodes v0 (edges s)) \<ge> 3 then
                 let s' = remove_edge v0 v1 s in
                 (v1, (case adj_nodes v1 (edges s') of [a] \<Rightarrow> a | _ \<Rightarrow> v1), s')
               else (v0, v1, s))"
  obtain a b s1 where t: "t = (a, b, s1)" by (cases t) auto
  have p1: "P s1" using t p stableD(1)[OF st p] unfolding t_def by (auto simp: Let_def split: if_splits)
  from r True obtain a2 b2 s2 where w: "cyc_walk n a b s1 = Inr (a2, b2, s2)"
    and f: "(if adj_nodes a2 (edges s2) = [] then
                  bind_err (remove_node a2 s2) (\<lambda>s3. Inr (remove_heap a2 s3))
                else Inr s2) = Inr s'"
    unfolding extractfilament_def t_def[symmetric] t
    by (auto simp: bind_err_Inr_iff)
  have p2: "P s2" using cyc_walk_stable[OF st p1 w] .
  show ?thesis
  proof (cases "adj_nodes a2 (edges s2) = []")
    case True
    then obtain s3 where "remove_node a2 s2 = Inr s3" "s' = remove_heap a2 s3"
      using f by (auto simp: bind_err_Inr_iff)
    then show ?thesis using stableD(2,3)[OF st] p2 by blast
  next
    case False
    then show ?thesis using f p2 by simp
  qed
next
  case False
  define t where "t = (if length (adj_nodes v0 (edges s)) \<ge> 3 then
                 let s' = remove_edge v0 v1 s in
                 (v1, (case adj_nodes v1 (edges s') of [a] \<Rightarrow> a | _ \<Rightarrow> v1), [v0], s')
               else (v0, v1, [], s))"
  obtain a b pr s1 where t: "t = (a, b, pr, s1)" by (cases t) auto
  have p1: "P s1" using t p stableD(1)[OF st p] unfolding t_def by (auto simp: Let_def split: if_splits)
  from r False obtain a2 b2 pr2 s2 s3 where w: "fil_walk n a b pr s1 = Inr (a2, b2, pr2, s2)"
    and f: "(if adj_nodes a2 (edges s2) = [] then
                     remove_node a2 (remove_edge a2 b2 (remove_heap a2 s2))
                   else Inr s2) = Inr s3"
    and e: "s' = s3\<lparr> primitives := primitives s3 @ [Filament (pr2 @ [a2])] \<rparr>"
    unfolding extractfilament_def t_def[symmetric] t
    by (auto simp: bind_err_Inr_iff Let_def)
  have p2: "P s2" using fil_walk_stable[OF st p1 w] .
  have "P s3"
  proof (cases "adj_nodes a2 (edges s2) = []")
    case True
    then have "remove_node a2 (remove_edge a2 b2 (remove_heap a2 s2)) = Inr s3" using f by simp
    moreover have "P (remove_edge a2 b2 (remove_heap a2 s2))"
      using stableD(1,2)[OF st] p2 by blast
    ultimately show ?thesis using stableD(3)[OF st] by blast
  next
    case False
    then show ?thesis using f p2 by simp
  qed
  then show ?thesis using e stableD(4)[OF st] by simp
qed

lemma hanging_stable:
  assumes st: "stable P" and p: "P s" and r: "hanging n v s = Inr s'"
  shows "P s'"
proof (cases "adj_nodes v (edges s)")
  case Nil
  then show ?thesis using r p by (simp add: hanging_def)
next
  case (Cons x xs)
  show ?thesis
  proof (cases xs)
    case Nil
    then have "extractfilament n v x (s\<lparr> cycle_edge := cycle_edge s @ [(v, x), (x, v)] \<rparr>) = Inr s'"
      using r Cons by (simp add: hanging_def)
    then show ?thesis using extractfilament_stable[OF st] stableD(5)[OF st p] by blast
  next
    case (Cons y ys)
    then show ?thesis using r p \<open>adj_nodes v (edges s) = x # xs\<close> by (simp add: hanging_def)
  qed
qed

text \<open>The sequence of the walk is the start node followed by the visited nodes, all different.\<close>

lemma walk_sequence:
  "walk n v0 s (v0 # vis) vis vc vp = Inr (sq, r, vp') \<Longrightarrow> distinct (v0 # vis) \<Longrightarrow>
   \<exists>vis'. sq = v0 # vis' \<and> distinct (v0 # vis')"
proof (induction n arbitrary: vis vc vp)
  case 0
  then show ?case by simp
next
  case (Suc n)
  show ?case
  proof (cases vc)
    case None
    then show ?thesis using Suc.prems by auto
  next
    case (Some c)
    show ?thesis
    proof (cases "c = v0 \<or> c \<in> set vis")
      case True
      then show ?thesis using Suc.prems Some by auto
    next
      case False
      then obtain nx where w: "walk n v0 s (v0 # (vis @ [c])) (vis @ [c]) nx c = Inr (sq, r, vp')"
        using Suc.prems(1) Some by (auto simp: bind_err_Inr_iff)
      have "distinct (v0 # (vis @ [c]))" using False Suc.prems(2) by auto
      then show ?thesis using Suc.IH[OF w] by blast
    qed
  qed
qed

lemma extract_primitives_stable:
  assumes st: "stable P" and p: "P s" and r: "extract_primitives n k s = Inr s'"
  shows "P s'"
proof -
  from r obtain v1 sq vc vp where
    w: "walk n k s [k] [] (Some v1) k = Inr (sq, vc, vp)" and
    f: "(case vc of
           None \<Rightarrow> (case adj_nodes vp (edges s) of [] \<Rightarrow> Inl IndexError
                    | a # _ \<Rightarrow> extractfilament n vp a s)
         | Some c \<Rightarrow>
             if c = k then
               let closed = sq @ [k];
                   s1 = remove_heap k (remove_edge k v1 (s\<lparr> minimal_cycles := minimal_cycles s @ [closed] \<rparr>))
               in bind_err (hanging n k s1)
                    (\<lambda>s2. bind_err (hanging n v1 s2)
                       (\<lambda>s3. Inr (s3\<lparr> cycle_edge := cycle_edge s3 @ cycle_marks closed \<rparr>)))
             else bind_err (chain_walk n k v1 (edges s)) (\<lambda>(v0a, v1a). extractfilament n v0a v1a s))
         = Inr s'"
    unfolding extract_primitives_def by (auto simp: bind_err_Inr_iff Let_def)
  show ?thesis
  proof (cases vc)
    case None
    then show ?thesis using f extractfilament_stable[OF st p]
      by (cases "adj_nodes vp (edges s)") auto
  next
    case (Some c)
    show ?thesis
    proof (cases "c = k")
      case True
      obtain vis' where sq: "sq = k # vis'" "distinct (k # vis')"
        using walk_sequence[OF w] by auto
      have cc: "closed_cycle (sq @ [k])"
        using sq by (auto simp: closed_cycle_def butlast_append)
      define s1 where "s1 = remove_heap k (remove_edge k v1 (s\<lparr> minimal_cycles := minimal_cycles s @ [sq @ [k]] \<rparr>))"
      have p1: "P s1" unfolding s1_def using stableD(1,2,7)[OF st] p cc by blast
      from f Some True obtain s2 s3 where h1: "hanging n k s1 = Inr s2" and h2: "hanging n v1 s2 = Inr s3"
        and e: "s' = s3\<lparr> cycle_edge := cycle_edge s3 @ cycle_marks (sq @ [k]) \<rparr>"
        unfolding s1_def by (auto simp: bind_err_Inr_iff Let_def)
      have "P s3" using hanging_stable[OF st _ h2] hanging_stable[OF st p1 h1] by blast
      then show ?thesis using e stableD(5)[OF st] by simp
    next
      case False
      then obtain a b where "extractfilament n a b s = Inr s'"
        using f Some by (auto simp: bind_err_Inr_iff)
      then show ?thesis using extractfilament_stable[OF st p] by blast
    qed
  qed
qed

lemma main_loop_stable:
  "stable P \<Longrightarrow> P s \<Longrightarrow> main_loop n s = Inr s' \<Longrightarrow> P s'"
proof (induction n arbitrary: s)
  case 0
  then show ?case by simp
next
  case (Suc n)
  show ?case
  proof (cases "sorted_nodes s")
    case Nil
    then show ?thesis using Suc.prems by simp
  next
    case (Cons kc rest)
    obtain k c where kc: "kc = (k, c)" by (cases kc) auto
    show ?thesis
    proof (cases "adj_nodes k (edges s)")
      case Nil
      then obtain s1 where i: "extractisolated k s = Inr s1"
        and m: "main_loop n (s1\<lparr> sorted_nodes := tl (sorted_nodes s1) \<rparr>) = Inr s'"
        using Suc.prems(3) Cons kc by (auto simp: bind_err_Inr_iff)
      have "P s1" using i stableD(3,4)[OF Suc.prems(1)] Suc.prems(2)
        unfolding extractisolated_def by blast
      then have "P (s1\<lparr> sorted_nodes := tl (sorted_nodes s1) \<rparr>)"
        using stableD(6)[OF Suc.prems(1)] by blast
      then show ?thesis using Suc.IH[OF Suc.prems(1) _ m] by blast
    next
      case (Cons a as)
      note adj = this
      show ?thesis
      proof (cases as)
        case Nil
        then obtain s1 where i: "extractfilament n k a s = Inr s1" and m: "main_loop n s1 = Inr s'"
          using Suc.prems(3) \<open>sorted_nodes s = kc # rest\<close> kc adj by (auto simp: bind_err_Inr_iff)
        then show ?thesis
          using Suc.IH[OF Suc.prems(1) _ m] extractfilament_stable[OF Suc.prems(1,2) i] by blast
      next
        case (Cons b bs)
        then obtain s1 where i: "extract_primitives n k s = Inr s1" and m: "main_loop n s1 = Inr s'"
          using Suc.prems(3) \<open>sorted_nodes s = kc # rest\<close> kc adj by (auto simp: bind_err_Inr_iff)
        then show ?thesis
          using Suc.IH[OF Suc.prems(1) _ m] extract_primitives_stable[OF Suc.prems(1,2) i] by blast
      qed
    qed
  qed
qed

text \<open>Three stable properties.\<close>

lemma stable_cycles: "stable (\<lambda>s. \<forall>c\<in>set (minimal_cycles s). closed_cycle c)"
  by (auto simp: stable_def remove_edge_def remove_heap_def remove_node_def
      split: option.splits)

lemma stable_ext_edges: "stable (\<lambda>s. \<forall>e\<in>set (ext_edges s). twin e \<in> set (ext_edges s))"
  by (auto simp: stable_def remove_edge_def remove_heap_def remove_node_def twin_def
      split: option.splits)

lemma stable_nodes: "stable (\<lambda>s. set (nodes s) \<subseteq> set ns)"
proof -
  have "\<And>k al. set (AList.delete k al) \<subseteq> set (al :: (node \<times> point) list)"
    by (auto simp: AList.delete_eq)
  then show ?thesis
    by (fastforce simp: stable_def remove_edge_def remove_heap_def remove_node_def
        split: option.splits)
qed

lemma closed_cycle_card:
  assumes "closed_cycle c"
  shows "card (set c) + 1 = length c"
proof -
  have n: "c \<noteq> []" using assms by (auto simp: closed_cycle_def)
  have b: "butlast c \<noteq> []" using assms by (cases c) (auto simp: closed_cycle_def)
  have h: "hd c = hd (butlast c)" using n b by (cases c) auto
  have "hd (butlast c) \<in> set (butlast c)" using b by (rule hd_in_set)
  then have l: "last c \<in> set (butlast c)" using assms h by (simp add: closed_cycle_def)
  have "set c = set (butlast c @ [last c])" using n by simp
  also have "\<dots> = insert (last c) (set (butlast c))" by simp
  also have "\<dots> = set (butlast c)" using l by (rule insert_absorb)
  finally have "card (set c) = length (butlast c)"
    using assms by (simp add: closed_cycle_def distinct_card)
  then show ?thesis using n by simp
qed

text \<open>
  C10. Every cycle that \<open>regions_from_graph\<close> returns has at least two entries, ends with
  its first node and repeats no other node: a cycle of \<open>k\<close> different nodes has \<open>k + 1\<close>
  entries.
\<close>

theorem regions_closed:
  assumes "regions_from_graph fuel ns es = Inr r" and "c \<in> set (regions r)"
  shows "2 \<le> length c \<and> hd c = last c \<and> distinct (butlast c) \<and> card (set c) + 1 = length c"
proof -
  from assms(1) obtain s where m: "main_loop fuel (init_state ns es) = Inr s"
    and r: "r = results_of s"
    by (auto simp: regions_from_graph_def run_extraction_def bind_err_Inr_iff)
  have "\<forall>c\<in>set (minimal_cycles (init_state ns es)). closed_cycle c"
    by (simp add: init_state_def)
  then have "\<forall>c\<in>set (minimal_cycles s). closed_cycle c"
    using main_loop_stable[OF stable_cycles _ m] by blast
  then have "closed_cycle c" using assms(2) r by (simp add: results_of_def)
  then show ?thesis using closed_cycle_card by (auto simp: closed_cycle_def)
qed

theorem regions_closed_witness:
  "regions_from_graph 20 s1_coords [(0, 1), (1, 0), (1, 2), (2, 1), (2, 0), (0, 2)] =
     Inr \<lparr>regions = [[0, 1, 2, 0]], filaments = [],
          res_vertices = [(0, 0, 0), (1, 1, 0), (2, 0, 1)],
          res_edges = [(0, 1), (1, 0), (0, 2), (2, 0), (1, 2), (2, 1)]\<rparr> \<and>
   hd [0, 1, 2, 0 :: node] = last [0, 1, 2, 0] \<and>
   card (set [0, 1, 2, 0 :: node]) + 1 = length [0, 1, 2, 0 :: node]"
proof -
  have r: "regions_from_graph 20 s1_coords [(0, 1), (1, 0), (1, 2), (2, 1), (2, 0), (0, 2)] =
     Inr \<lparr>regions = [[0, 1, 2, 0]], filaments = [],
          res_vertices = [(0, 0, 0), (1, 1, 0), (2, 0, 1)],
          res_edges = [(0, 1), (1, 0), (0, 2), (2, 0), (1, 2), (2, 1)]\<rparr>"
    by (simp add: regions_from_graph_def run_extraction_def init_state_def s1_coords_def
        results_of_def bind_err_def adj_nodes_def cross_def psub_def clockwise_def
        counterclockwise_def getitem_def remove_edge_def remove_heap_def remove_node_def
        extractisolated_def in_cycle_def extractfilament_def cycle_marks_def hanging_def
        extract_primitives_def Let_def numeral_eq_Suc)
  show ?thesis using regions_closed [OF r, of "[0, 1, 2, 0]"] r by simp
qed

subsection \<open>Evaluation on concrete graphs\<close>

lemmas rg_defs = bind_err_def adj_nodes_def cross_def psub_def clockwise_def
  counterclockwise_def getitem_def remove_edge_def remove_heap_def remove_node_def
  extractisolated_def in_cycle_def extractfilament_def cycle_marks_def hanging_def
  extract_primitives_def Let_def numeral_eq_Suc

lemma main_loop_numeral:
  "main_loop (numeral k) s =
     (case sorted_nodes s of
        [] \<Rightarrow> Inr s
      | (start_key, _) # _ \<Rightarrow>
          (case adj_nodes start_key (edges s) of
             [] \<Rightarrow>
               bind_err (extractisolated start_key s)
                 (\<lambda>s'. main_loop (pred_numeral k) (s'\<lparr> sorted_nodes := tl (sorted_nodes s') \<rparr>))
           | [a] \<Rightarrow> bind_err (extractfilament (pred_numeral k) start_key a s)
                      (main_loop (pred_numeral k))
           | _ \<Rightarrow> bind_err (extract_primitives (pred_numeral k) start_key s)
                    (main_loop (pred_numeral k))))"
  by (simp add: numeral_eq_Suc)

lemma bind_err_Inr: "bind_err (Inr x) f = f x"
  by (simp add: bind_err_def)

lemma bind_err_Inl: "bind_err (Inl e) f = Inl e"
  by (simp add: bind_err_def)

lemma bind_err_arg: "m = m' \<Longrightarrow> bind_err m f = bind_err m' f"
  by simp

lemma trace_path_numeral:
  "trace_path (numeral k) pos current path_head tail path noleft =
     (if tail = path_head then Inr (path, noleft)
      else
        let candidates = filter (\<lambda>e. fst e = tail) noleft in
        bind_err (choose_next pos current candidates)
          (\<lambda>j. if j < length candidates then
                  let next_edge = candidates ! j in
                  trace_path (pred_numeral k) pos current path_head (snd next_edge)
                    (path @ [next_edge]) (remove1 next_edge noleft)
                else Inl IndexError))"
  by (simp add: numeral_eq_Suc)

lemma find_unions_numeral:
  "find_unions (numeral k) pos noleft unions =
     (if noleft = [] then Inr unions
      else
        let current = last noleft in
        bind_err (trace_path (pred_numeral k) pos current (fst current) (snd current)
                    [current] (butlast noleft))
          (\<lambda>(path, noleft'). find_unions (pred_numeral k) pos noleft' (unions @ [path])))"
  by (simp add: numeral_eq_Suc)

lemma links_loop_numeral:
  "links_loop (numeral k) sc_tab ec_tab v l0 l links =
     bind_err (if v = fst l then getitem sc_tab l else getitem ec_tab l)
       (\<lambda>l'. if same_nodes l' l0 then Inr links
             else links_loop (pred_numeral k) sc_tab ec_tab v l0 l' (links @ [l']))"
  by (simp add: numeral_eq_Suc)


lemma choose_next_few: "choose_next pos current [] = Inr 0" "choose_next pos current [e] = Inr 0"
  by (simp_all add: choose_next_def)

lemmas wed_defs0 = choose_next_few extract_wed_def results_of_def endpoint_tables_def empty_wed_def
  face_region_def face_edge_def noleft_of_def assign_exterior_def setdefault_def
  install_union_def union_inner_def py_set_def dict_update_def
  insert_filament_def bind_err_Inr bind_err_Inl getitem_def Let_def
  trace_path_numeral find_unions_numeral links_loop_numeral same_nodes_def
  doubleton_eq_iff psub_def

lemmas wed_defs = wed_defs0 choose_next_def

lemma Let_arg: "a = b \<Longrightarrow> Let a f = Let b f"
  by simp

subsection \<open>Angles at concrete points\<close>

lemma sqrt_9: "sqrt 9 = 3"
  by (rule real_sqrt_unique) simp_all

lemma sqrt_16: "sqrt 16 = 4"
  by (rule real_sqrt_unique) simp_all

lemma sqrt_25: "sqrt 25 = 5"
  by (rule real_sqrt_unique) simp_all

lemma arccos_four_fifths: "0 < arccos (4 / 5)" "arccos (4 / 5) < pi / 2"
proof -
  show "0 < arccos (4 / 5)" using arccos_lt_bounded[of "4 / 5"] by simp
  have "arccos (4 / 5) < arccos 0" by (rule arccos_less_arccos) simp_all
  then show "arccos (4 / 5) < pi / 2" by simp
qed

lemma theta_deg_up_left: "theta_deg (- 1, 1) = 135"
proof -
  have "arctan (- 1) = - (pi / 4)" by (simp add: arctan_minus arctan_one)
  then show ?thesis by (simp add: theta_deg_def atan2_def Let_def)
qed

lemma theta_deg_left: "theta_deg (- 1, 0) = 180"
  by (simp add: theta_deg_def atan2_def Let_def)

lemma theta_deg_filament: "0 < theta_deg (1, 2)" "theta_deg (1, 2) < 90"
proof -
  have p: "0 < arctan 2" by (simp add: zero_less_arctan_iff)
  have q: "arctan 2 < pi / 2" by (rule arctan_ubound)
  have e: "theta_deg (1, 2) = arctan 2 * 180 / pi"
    using p by (simp add: theta_deg_def atan2_def Let_def not_less zero_le_mult_iff)
  show "0 < theta_deg (1, 2)" using p by (simp add: e)
  have "arctan 2 * 180 < pi / 2 * 180" using q by simp
  then show "theta_deg (1, 2) < 90" by (simp add: e pos_divide_less_eq)
qed

lemma spec_ccw_up: "spec_ccw_angle (3, 0) (0, 4) = pi / 2"
  by (simp add: spec_ccw_angle_def atan2_def cross_def dotproduct_def Let_def)

lemma spec_ccw_down: "spec_ccw_angle (3, 0) (4, - 3) = 2 * pi - arctan (3 / 4)"
proof -
  have "arctan (- (3 / 4)) = - arctan (3 / 4)" by (rule arctan_minus)
  moreover have "0 < arctan (3 / 4)" by (simp add: zero_less_arctan_iff)
  ultimately show ?thesis
    by (simp add: spec_ccw_angle_def atan2_def cross_def dotproduct_def Let_def)
qed

subsection \<open>The graph of the docstring\<close>

lemma eberly_extraction:
  "run_extraction 100 eberly_vertices eberly_edges =
     Inr (\<lparr>sorted_nodes = [], edges = [], nodes = [], node_coord = [], primitives =
      [Filament [6, 5, 4], Isolated 0, Filament [2, 7, 11], Filament [14, 15, 16], Isolated 17],
      minimal_cycles = [[3, 4, 2, 1, 3], [9, 10, 8, 9], [11, 12, 13, 11], [12, 20, 19, 18, 13,
      12], [19, 20, 21, 19], [22, 23, 24, 20, 22], [26, 27, 25, 26]], cycle_edge = [(3, 1), (1,
      3), (4, 2), (2, 4), (4, 3), (3, 4), (2, 4), (4, 2), (1, 2), (2, 1), (9, 8), (8, 9), (10,
      8), (8, 10), (10, 9), (9, 10), (8, 10), (10, 8), (11, 13), (13, 11), (12, 11), (11, 12),
      (13, 12), (12, 13), (12, 13), (13, 12), (20, 12), (12, 20), (19, 20), (20, 19), (18, 19),
      (19, 18), (13, 18), (18, 13), (19, 21), (21, 19), (20, 19), (19, 20), (21, 20), (20, 21),
      (22, 20), (20, 22), (23, 24), (24, 23), (23, 22), (22, 23), (24, 23), (23, 24), (20, 24),
      (24, 20), (26, 25), (25, 26), (27, 25), (25, 27), (27, 26), (26, 27), (25, 27), (27, 25)],
      vertices = [(6, 2, 9 / 2), (5, 3, 5), (3, 0, 4), (4, 5, 4), (1, 1, 7), (0, 1, 8), (2, 4,
      7), (7, 13 / 2, 9), (9, 11 / 2, 3), (10, 7, 3), (8, 31 / 5, 5), (11, 15 / 2, 29 / 4), (12,
      8, 4), (14, 9, 1), (15, 11, 3), (16, 12, 2), (13, 23 / 2, 29 / 4), (18, 27 / 2, 6), (17,
      12, 5), (19, 14, 29 / 4), (22, 16, 1), (23, 21, 1), (24, 21, 4), (20, 16, 4), (21, 18, 17
      / 2), (26, 17, 2), (27, 19, 2), (25, 18, 7 / 2)], ext_edges = [(6, 5), (5, 6), (5, 4), (4,
      5), (3, 4), (4, 3), (3, 1), (1, 3), (4, 2), (2, 4), (1, 2), (2, 1), (2, 7), (7, 2), (7,
      11), (11, 7), (9, 10), (10, 9), (9, 8), (8, 9), (10, 8), (8, 10), (11, 12), (12, 11), (11,
      13), (13, 11), (12, 20), (20, 12), (12, 13), (13, 12), (14, 15), (15, 14), (15, 16), (16,
      15), (16, 16), (16, 16), (13, 18), (18, 13), (18, 19), (19, 18), (19, 20), (20, 19), (19,
      21), (21, 19), (22, 23), (23, 22), (22, 20), (20, 22), (23, 24), (24, 23), (24, 20), (20,
      24), (20, 21), (21, 20), (26, 27), (27, 26), (26, 25), (25, 26), (27, 25), (25,
      27)]\<rparr>)"
proof -
  let ?S0 = "\<lparr>sorted_nodes = [(3, 0, 4), (1, 1, 7), (0, 1, 8), (6, 2, 9 / 2), (5,
      3, 5), (2, 4, 7), (4, 5, 4), (9, 11 / 2, 3), (8, 31 / 5, 5), (7, 13 / 2, 9), (10, 7, 3),
      (11, 15 / 2, 29 / 4), (12, 8, 4), (14, 9, 1), (15, 11, 3), (13, 23 / 2, 29 / 4), (16, 12,
      2), (17, 12, 5), (18, 27 / 2, 6), (19, 14, 29 / 4), (22, 16, 1), (20, 16, 4), (26, 17, 2),
      (25, 18, 7 / 2), (21, 18, 17 / 2), (27, 19, 2), (23, 21, 1), (24, 21, 4)], edges = [(1,
      2), (1, 3), (2, 1), (2, 4), (2, 7), (3, 1), (3, 4), (4, 2), (4, 3), (4, 5), (5, 4), (5,
      6), (6, 5), (7, 2), (7, 11), (8, 9), (8, 10), (9, 8), (9, 10), (10, 8), (10, 9), (11, 7),
      (11, 12), (11, 13), (12, 11), (12, 13), (12, 20), (13, 11), (13, 12), (13, 18), (14, 15),
      (15, 14), (15, 16), (16, 15), (18, 13), (18, 19), (19, 18), (19, 20), (19, 21), (20, 12),
      (20, 19), (20, 21), (20, 22), (20, 24), (21, 19), (21, 20), (22, 20), (22, 23), (23, 22),
      (23, 24), (24, 20), (24, 23), (25, 26), (25, 27), (26, 25), (26, 27), (27, 25), (27, 26)],
      nodes = [(0, 1, 8), (1, 1, 7), (2, 4, 7), (3, 0, 4), (4, 5, 4), (5, 3, 5), (6, 2, 9 / 2),
      (7, 13 / 2, 9), (8, 31 / 5, 5), (9, 11 / 2, 3), (10, 7, 3), (11, 15 / 2, 29 / 4), (12, 8,
      4), (13, 23 / 2, 29 / 4), (14, 9, 1), (15, 11, 3), (16, 12, 2), (17, 12, 5), (18, 27 / 2,
      6), (19, 14, 29 / 4), (20, 16, 4), (21, 18, 17 / 2), (22, 16, 1), (23, 21, 1), (24, 21,
      4), (25, 18, 7 / 2), (26, 17, 2), (27, 19, 2)], node_coord = [((1, 8), 0), ((1, 7), 1),
      ((4, 7), 2), ((0, 4), 3), ((5, 4), 4), ((3, 5), 5), ((2, 9 / 2), 6), ((13 / 2, 9), 7),
      ((31 / 5, 5), 8), ((11 / 2, 3), 9), ((7, 3), 10), ((15 / 2, 29 / 4), 11), ((8, 4), 12),
      ((23 / 2, 29 / 4), 13), ((9, 1), 14), ((11, 3), 15), ((12, 2), 16), ((12, 5), 17), ((27 /
      2, 6), 18), ((14, 29 / 4), 19), ((16, 4), 20), ((18, 17 / 2), 21), ((16, 1), 22), ((21,
      1), 23), ((21, 4), 24), ((18, 7 / 2), 25), ((17, 2), 26), ((19, 2), 27)], primitives = [],
      minimal_cycles = [], cycle_edge = [], vertices = [], ext_edges = []\<rparr>"
  let ?S1 = "\<lparr>sorted_nodes = [(3, 0, 4), (1, 1, 7), (0, 1, 8), (2, 4, 7), (4, 5,
      4), (9, 11 / 2, 3), (8, 31 / 5, 5), (7, 13 / 2, 9), (10, 7, 3), (11, 15 / 2, 29 / 4), (12,
      8, 4), (14, 9, 1), (15, 11, 3), (13, 23 / 2, 29 / 4), (16, 12, 2), (17, 12, 5), (18, 27 /
      2, 6), (19, 14, 29 / 4), (22, 16, 1), (20, 16, 4), (26, 17, 2), (25, 18, 7 / 2), (21, 18,
      17 / 2), (27, 19, 2), (23, 21, 1), (24, 21, 4)], edges = [(1, 2), (1, 3), (2, 1), (2, 4),
      (2, 7), (3, 1), (3, 4), (4, 2), (4, 3), (7, 2), (7, 11), (8, 9), (8, 10), (9, 8), (9, 10),
      (10, 8), (10, 9), (11, 7), (11, 12), (11, 13), (12, 11), (12, 13), (12, 20), (13, 11),
      (13, 12), (13, 18), (14, 15), (15, 14), (15, 16), (16, 15), (18, 13), (18, 19), (19, 18),
      (19, 20), (19, 21), (20, 12), (20, 19), (20, 21), (20, 22), (20, 24), (21, 19), (21, 20),
      (22, 20), (22, 23), (23, 22), (23, 24), (24, 20), (24, 23), (25, 26), (25, 27), (26, 25),
      (26, 27), (27, 25), (27, 26)], nodes = [(0, 1, 8), (1, 1, 7), (2, 4, 7), (3, 0, 4), (4, 5,
      4), (7, 13 / 2, 9), (8, 31 / 5, 5), (9, 11 / 2, 3), (10, 7, 3), (11, 15 / 2, 29 / 4), (12,
      8, 4), (13, 23 / 2, 29 / 4), (14, 9, 1), (15, 11, 3), (16, 12, 2), (17, 12, 5), (18, 27 /
      2, 6), (19, 14, 29 / 4), (20, 16, 4), (21, 18, 17 / 2), (22, 16, 1), (23, 21, 1), (24, 21,
      4), (25, 18, 7 / 2), (26, 17, 2), (27, 19, 2)], node_coord = [((1, 8), 0), ((1, 7), 1),
      ((4, 7), 2), ((0, 4), 3), ((5, 4), 4), ((13 / 2, 9), 7), ((31 / 5, 5), 8), ((11 / 2, 3),
      9), ((7, 3), 10), ((15 / 2, 29 / 4), 11), ((8, 4), 12), ((23 / 2, 29 / 4), 13), ((9, 1),
      14), ((11, 3), 15), ((12, 2), 16), ((12, 5), 17), ((27 / 2, 6), 18), ((14, 29 / 4), 19),
      ((16, 4), 20), ((18, 17 / 2), 21), ((16, 1), 22), ((21, 1), 23), ((21, 4), 24), ((18, 7 /
      2), 25), ((17, 2), 26), ((19, 2), 27)], primitives = [Filament [6, 5, 4]], minimal_cycles
      = [], cycle_edge = [], vertices = [(6, 2, 9 / 2), (5, 3, 5)], ext_edges = [(6, 5), (5, 6),
      (5, 4), (4, 5)]\<rparr>"
  let ?S2 = "\<lparr>sorted_nodes = [(1, 1, 7), (0, 1, 8), (2, 4, 7), (9, 11 / 2, 3), (8,
      31 / 5, 5), (7, 13 / 2, 9), (10, 7, 3), (11, 15 / 2, 29 / 4), (12, 8, 4), (14, 9, 1), (15,
      11, 3), (13, 23 / 2, 29 / 4), (16, 12, 2), (17, 12, 5), (18, 27 / 2, 6), (19, 14, 29 / 4),
      (22, 16, 1), (20, 16, 4), (26, 17, 2), (25, 18, 7 / 2), (21, 18, 17 / 2), (27, 19, 2),
      (23, 21, 1), (24, 21, 4)], edges = [(1, 2), (2, 1), (2, 7), (7, 2), (7, 11), (8, 9), (8,
      10), (9, 8), (9, 10), (10, 8), (10, 9), (11, 7), (11, 12), (11, 13), (12, 11), (12, 13),
      (12, 20), (13, 11), (13, 12), (13, 18), (14, 15), (15, 14), (15, 16), (16, 15), (18, 13),
      (18, 19), (19, 18), (19, 20), (19, 21), (20, 12), (20, 19), (20, 21), (20, 22), (20, 24),
      (21, 19), (21, 20), (22, 20), (22, 23), (23, 22), (23, 24), (24, 20), (24, 23), (25, 26),
      (25, 27), (26, 25), (26, 27), (27, 25), (27, 26)], nodes = [(0, 1, 8), (1, 1, 7), (2, 4,
      7), (7, 13 / 2, 9), (8, 31 / 5, 5), (9, 11 / 2, 3), (10, 7, 3), (11, 15 / 2, 29 / 4), (12,
      8, 4), (13, 23 / 2, 29 / 4), (14, 9, 1), (15, 11, 3), (16, 12, 2), (17, 12, 5), (18, 27 /
      2, 6), (19, 14, 29 / 4), (20, 16, 4), (21, 18, 17 / 2), (22, 16, 1), (23, 21, 1), (24, 21,
      4), (25, 18, 7 / 2), (26, 17, 2), (27, 19, 2)], node_coord = [((1, 8), 0), ((1, 7), 1),
      ((4, 7), 2), ((13 / 2, 9), 7), ((31 / 5, 5), 8), ((11 / 2, 3), 9), ((7, 3), 10), ((15 / 2,
      29 / 4), 11), ((8, 4), 12), ((23 / 2, 29 / 4), 13), ((9, 1), 14), ((11, 3), 15), ((12, 2),
      16), ((12, 5), 17), ((27 / 2, 6), 18), ((14, 29 / 4), 19), ((16, 4), 20), ((18, 17 / 2),
      21), ((16, 1), 22), ((21, 1), 23), ((21, 4), 24), ((18, 7 / 2), 25), ((17, 2), 26), ((19,
      2), 27)], primitives = [Filament [6, 5, 4]], minimal_cycles = [[3, 4, 2, 1, 3]],
      cycle_edge = [(3, 1), (1, 3), (4, 2), (2, 4), (4, 3), (3, 4), (2, 4), (4, 2), (1, 2), (2,
      1)], vertices = [(6, 2, 9 / 2), (5, 3, 5), (3, 0, 4), (4, 5, 4)], ext_edges = [(6, 5), (5,
      6), (5, 4), (4, 5), (3, 4), (4, 3), (3, 1), (1, 3), (4, 2), (2, 4)]\<rparr>"
  let ?S3 = "\<lparr>sorted_nodes = [(0, 1, 8), (2, 4, 7), (9, 11 / 2, 3), (8, 31 / 5, 5),
      (7, 13 / 2, 9), (10, 7, 3), (11, 15 / 2, 29 / 4), (12, 8, 4), (14, 9, 1), (15, 11, 3),
      (13, 23 / 2, 29 / 4), (16, 12, 2), (17, 12, 5), (18, 27 / 2, 6), (19, 14, 29 / 4), (22,
      16, 1), (20, 16, 4), (26, 17, 2), (25, 18, 7 / 2), (21, 18, 17 / 2), (27, 19, 2), (23, 21,
      1), (24, 21, 4)], edges = [(2, 7), (7, 2), (7, 11), (8, 9), (8, 10), (9, 8), (9, 10), (10,
      8), (10, 9), (11, 7), (11, 12), (11, 13), (12, 11), (12, 13), (12, 20), (13, 11), (13,
      12), (13, 18), (14, 15), (15, 14), (15, 16), (16, 15), (18, 13), (18, 19), (19, 18), (19,
      20), (19, 21), (20, 12), (20, 19), (20, 21), (20, 22), (20, 24), (21, 19), (21, 20), (22,
      20), (22, 23), (23, 22), (23, 24), (24, 20), (24, 23), (25, 26), (25, 27), (26, 25), (26,
      27), (27, 25), (27, 26)], nodes = [(0, 1, 8), (2, 4, 7), (7, 13 / 2, 9), (8, 31 / 5, 5),
      (9, 11 / 2, 3), (10, 7, 3), (11, 15 / 2, 29 / 4), (12, 8, 4), (13, 23 / 2, 29 / 4), (14,
      9, 1), (15, 11, 3), (16, 12, 2), (17, 12, 5), (18, 27 / 2, 6), (19, 14, 29 / 4), (20, 16,
      4), (21, 18, 17 / 2), (22, 16, 1), (23, 21, 1), (24, 21, 4), (25, 18, 7 / 2), (26, 17, 2),
      (27, 19, 2)], node_coord = [((1, 8), 0), ((4, 7), 2), ((13 / 2, 9), 7), ((31 / 5, 5), 8),
      ((11 / 2, 3), 9), ((7, 3), 10), ((15 / 2, 29 / 4), 11), ((8, 4), 12), ((23 / 2, 29 / 4),
      13), ((9, 1), 14), ((11, 3), 15), ((12, 2), 16), ((12, 5), 17), ((27 / 2, 6), 18), ((14,
      29 / 4), 19), ((16, 4), 20), ((18, 17 / 2), 21), ((16, 1), 22), ((21, 1), 23), ((21, 4),
      24), ((18, 7 / 2), 25), ((17, 2), 26), ((19, 2), 27)], primitives = [Filament [6, 5, 4]],
      minimal_cycles = [[3, 4, 2, 1, 3]], cycle_edge = [(3, 1), (1, 3), (4, 2), (2, 4), (4, 3),
      (3, 4), (2, 4), (4, 2), (1, 2), (2, 1)], vertices = [(6, 2, 9 / 2), (5, 3, 5), (3, 0, 4),
      (4, 5, 4), (1, 1, 7)], ext_edges = [(6, 5), (5, 6), (5, 4), (4, 5), (3, 4), (4, 3), (3,
      1), (1, 3), (4, 2), (2, 4), (1, 2), (2, 1)]\<rparr>"
  let ?S4 = "\<lparr>sorted_nodes = [(2, 4, 7), (9, 11 / 2, 3), (8, 31 / 5, 5), (7, 13 /
      2, 9), (10, 7, 3), (11, 15 / 2, 29 / 4), (12, 8, 4), (14, 9, 1), (15, 11, 3), (13, 23 / 2,
      29 / 4), (16, 12, 2), (17, 12, 5), (18, 27 / 2, 6), (19, 14, 29 / 4), (22, 16, 1), (20,
      16, 4), (26, 17, 2), (25, 18, 7 / 2), (21, 18, 17 / 2), (27, 19, 2), (23, 21, 1), (24, 21,
      4)], edges = [(2, 7), (7, 2), (7, 11), (8, 9), (8, 10), (9, 8), (9, 10), (10, 8), (10, 9),
      (11, 7), (11, 12), (11, 13), (12, 11), (12, 13), (12, 20), (13, 11), (13, 12), (13, 18),
      (14, 15), (15, 14), (15, 16), (16, 15), (18, 13), (18, 19), (19, 18), (19, 20), (19, 21),
      (20, 12), (20, 19), (20, 21), (20, 22), (20, 24), (21, 19), (21, 20), (22, 20), (22, 23),
      (23, 22), (23, 24), (24, 20), (24, 23), (25, 26), (25, 27), (26, 25), (26, 27), (27, 25),
      (27, 26)], nodes = [(2, 4, 7), (7, 13 / 2, 9), (8, 31 / 5, 5), (9, 11 / 2, 3), (10, 7, 3),
      (11, 15 / 2, 29 / 4), (12, 8, 4), (13, 23 / 2, 29 / 4), (14, 9, 1), (15, 11, 3), (16, 12,
      2), (17, 12, 5), (18, 27 / 2, 6), (19, 14, 29 / 4), (20, 16, 4), (21, 18, 17 / 2), (22,
      16, 1), (23, 21, 1), (24, 21, 4), (25, 18, 7 / 2), (26, 17, 2), (27, 19, 2)], node_coord =
      [((4, 7), 2), ((13 / 2, 9), 7), ((31 / 5, 5), 8), ((11 / 2, 3), 9), ((7, 3), 10), ((15 /
      2, 29 / 4), 11), ((8, 4), 12), ((23 / 2, 29 / 4), 13), ((9, 1), 14), ((11, 3), 15), ((12,
      2), 16), ((12, 5), 17), ((27 / 2, 6), 18), ((14, 29 / 4), 19), ((16, 4), 20), ((18, 17 /
      2), 21), ((16, 1), 22), ((21, 1), 23), ((21, 4), 24), ((18, 7 / 2), 25), ((17, 2), 26),
      ((19, 2), 27)], primitives = [Filament [6, 5, 4], Isolated 0], minimal_cycles = [[3, 4, 2,
      1, 3]], cycle_edge = [(3, 1), (1, 3), (4, 2), (2, 4), (4, 3), (3, 4), (2, 4), (4, 2), (1,
      2), (2, 1)], vertices = [(6, 2, 9 / 2), (5, 3, 5), (3, 0, 4), (4, 5, 4), (1, 1, 7), (0, 1,
      8)], ext_edges = [(6, 5), (5, 6), (5, 4), (4, 5), (3, 4), (4, 3), (3, 1), (1, 3), (4, 2),
      (2, 4), (1, 2), (2, 1)]\<rparr>"
  let ?S5 = "\<lparr>sorted_nodes = [(9, 11 / 2, 3), (8, 31 / 5, 5), (10, 7, 3), (11, 15 /
      2, 29 / 4), (12, 8, 4), (14, 9, 1), (15, 11, 3), (13, 23 / 2, 29 / 4), (16, 12, 2), (17,
      12, 5), (18, 27 / 2, 6), (19, 14, 29 / 4), (22, 16, 1), (20, 16, 4), (26, 17, 2), (25, 18,
      7 / 2), (21, 18, 17 / 2), (27, 19, 2), (23, 21, 1), (24, 21, 4)], edges = [(8, 9), (8,
      10), (9, 8), (9, 10), (10, 8), (10, 9), (11, 12), (11, 13), (12, 11), (12, 13), (12, 20),
      (13, 11), (13, 12), (13, 18), (14, 15), (15, 14), (15, 16), (16, 15), (18, 13), (18, 19),
      (19, 18), (19, 20), (19, 21), (20, 12), (20, 19), (20, 21), (20, 22), (20, 24), (21, 19),
      (21, 20), (22, 20), (22, 23), (23, 22), (23, 24), (24, 20), (24, 23), (25, 26), (25, 27),
      (26, 25), (26, 27), (27, 25), (27, 26)], nodes = [(8, 31 / 5, 5), (9, 11 / 2, 3), (10, 7,
      3), (11, 15 / 2, 29 / 4), (12, 8, 4), (13, 23 / 2, 29 / 4), (14, 9, 1), (15, 11, 3), (16,
      12, 2), (17, 12, 5), (18, 27 / 2, 6), (19, 14, 29 / 4), (20, 16, 4), (21, 18, 17 / 2),
      (22, 16, 1), (23, 21, 1), (24, 21, 4), (25, 18, 7 / 2), (26, 17, 2), (27, 19, 2)],
      node_coord = [((31 / 5, 5), 8), ((11 / 2, 3), 9), ((7, 3), 10), ((15 / 2, 29 / 4), 11),
      ((8, 4), 12), ((23 / 2, 29 / 4), 13), ((9, 1), 14), ((11, 3), 15), ((12, 2), 16), ((12,
      5), 17), ((27 / 2, 6), 18), ((14, 29 / 4), 19), ((16, 4), 20), ((18, 17 / 2), 21), ((16,
      1), 22), ((21, 1), 23), ((21, 4), 24), ((18, 7 / 2), 25), ((17, 2), 26), ((19, 2), 27)],
      primitives = [Filament [6, 5, 4], Isolated 0, Filament [2, 7, 11]], minimal_cycles = [[3,
      4, 2, 1, 3]], cycle_edge = [(3, 1), (1, 3), (4, 2), (2, 4), (4, 3), (3, 4), (2, 4), (4,
      2), (1, 2), (2, 1)], vertices = [(6, 2, 9 / 2), (5, 3, 5), (3, 0, 4), (4, 5, 4), (1, 1,
      7), (0, 1, 8), (2, 4, 7), (7, 13 / 2, 9)], ext_edges = [(6, 5), (5, 6), (5, 4), (4, 5),
      (3, 4), (4, 3), (3, 1), (1, 3), (4, 2), (2, 4), (1, 2), (2, 1), (2, 7), (7, 2), (7, 11),
      (11, 7)]\<rparr>"
  let ?S6 = "\<lparr>sorted_nodes = [(11, 15 / 2, 29 / 4), (12, 8, 4), (14, 9, 1), (15,
      11, 3), (13, 23 / 2, 29 / 4), (16, 12, 2), (17, 12, 5), (18, 27 / 2, 6), (19, 14, 29 / 4),
      (22, 16, 1), (20, 16, 4), (26, 17, 2), (25, 18, 7 / 2), (21, 18, 17 / 2), (27, 19, 2),
      (23, 21, 1), (24, 21, 4)], edges = [(11, 12), (11, 13), (12, 11), (12, 13), (12, 20), (13,
      11), (13, 12), (13, 18), (14, 15), (15, 14), (15, 16), (16, 15), (18, 13), (18, 19), (19,
      18), (19, 20), (19, 21), (20, 12), (20, 19), (20, 21), (20, 22), (20, 24), (21, 19), (21,
      20), (22, 20), (22, 23), (23, 22), (23, 24), (24, 20), (24, 23), (25, 26), (25, 27), (26,
      25), (26, 27), (27, 25), (27, 26)], nodes = [(11, 15 / 2, 29 / 4), (12, 8, 4), (13, 23 /
      2, 29 / 4), (14, 9, 1), (15, 11, 3), (16, 12, 2), (17, 12, 5), (18, 27 / 2, 6), (19, 14,
      29 / 4), (20, 16, 4), (21, 18, 17 / 2), (22, 16, 1), (23, 21, 1), (24, 21, 4), (25, 18, 7
      / 2), (26, 17, 2), (27, 19, 2)], node_coord = [((15 / 2, 29 / 4), 11), ((8, 4), 12), ((23
      / 2, 29 / 4), 13), ((9, 1), 14), ((11, 3), 15), ((12, 2), 16), ((12, 5), 17), ((27 / 2,
      6), 18), ((14, 29 / 4), 19), ((16, 4), 20), ((18, 17 / 2), 21), ((16, 1), 22), ((21, 1),
      23), ((21, 4), 24), ((18, 7 / 2), 25), ((17, 2), 26), ((19, 2), 27)], primitives =
      [Filament [6, 5, 4], Isolated 0, Filament [2, 7, 11]], minimal_cycles = [[3, 4, 2, 1, 3],
      [9, 10, 8, 9]], cycle_edge = [(3, 1), (1, 3), (4, 2), (2, 4), (4, 3), (3, 4), (2, 4), (4,
      2), (1, 2), (2, 1), (9, 8), (8, 9), (10, 8), (8, 10), (10, 9), (9, 10), (8, 10), (10, 8)],
      vertices = [(6, 2, 9 / 2), (5, 3, 5), (3, 0, 4), (4, 5, 4), (1, 1, 7), (0, 1, 8), (2, 4,
      7), (7, 13 / 2, 9), (9, 11 / 2, 3), (10, 7, 3), (8, 31 / 5, 5)], ext_edges = [(6, 5), (5,
      6), (5, 4), (4, 5), (3, 4), (4, 3), (3, 1), (1, 3), (4, 2), (2, 4), (1, 2), (2, 1), (2,
      7), (7, 2), (7, 11), (11, 7), (9, 10), (10, 9), (9, 8), (8, 9), (10, 8), (8, 10)]\<rparr>"
  let ?S7 = "\<lparr>sorted_nodes = [(12, 8, 4), (14, 9, 1), (15, 11, 3), (13, 23 / 2, 29
      / 4), (16, 12, 2), (17, 12, 5), (18, 27 / 2, 6), (19, 14, 29 / 4), (22, 16, 1), (20, 16,
      4), (26, 17, 2), (25, 18, 7 / 2), (21, 18, 17 / 2), (27, 19, 2), (23, 21, 1), (24, 21,
      4)], edges = [(12, 13), (12, 20), (13, 12), (13, 18), (14, 15), (15, 14), (15, 16), (16,
      15), (18, 13), (18, 19), (19, 18), (19, 20), (19, 21), (20, 12), (20, 19), (20, 21), (20,
      22), (20, 24), (21, 19), (21, 20), (22, 20), (22, 23), (23, 22), (23, 24), (24, 20), (24,
      23), (25, 26), (25, 27), (26, 25), (26, 27), (27, 25), (27, 26)], nodes = [(12, 8, 4),
      (13, 23 / 2, 29 / 4), (14, 9, 1), (15, 11, 3), (16, 12, 2), (17, 12, 5), (18, 27 / 2, 6),
      (19, 14, 29 / 4), (20, 16, 4), (21, 18, 17 / 2), (22, 16, 1), (23, 21, 1), (24, 21, 4),
      (25, 18, 7 / 2), (26, 17, 2), (27, 19, 2)], node_coord = [((8, 4), 12), ((23 / 2, 29 / 4),
      13), ((9, 1), 14), ((11, 3), 15), ((12, 2), 16), ((12, 5), 17), ((27 / 2, 6), 18), ((14,
      29 / 4), 19), ((16, 4), 20), ((18, 17 / 2), 21), ((16, 1), 22), ((21, 1), 23), ((21, 4),
      24), ((18, 7 / 2), 25), ((17, 2), 26), ((19, 2), 27)], primitives = [Filament [6, 5, 4],
      Isolated 0, Filament [2, 7, 11]], minimal_cycles = [[3, 4, 2, 1, 3], [9, 10, 8, 9], [11,
      12, 13, 11]], cycle_edge = [(3, 1), (1, 3), (4, 2), (2, 4), (4, 3), (3, 4), (2, 4), (4,
      2), (1, 2), (2, 1), (9, 8), (8, 9), (10, 8), (8, 10), (10, 9), (9, 10), (8, 10), (10, 8),
      (11, 13), (13, 11), (12, 11), (11, 12), (13, 12), (12, 13)], vertices = [(6, 2, 9 / 2),
      (5, 3, 5), (3, 0, 4), (4, 5, 4), (1, 1, 7), (0, 1, 8), (2, 4, 7), (7, 13 / 2, 9), (9, 11 /
      2, 3), (10, 7, 3), (8, 31 / 5, 5), (11, 15 / 2, 29 / 4)], ext_edges = [(6, 5), (5, 6), (5,
      4), (4, 5), (3, 4), (4, 3), (3, 1), (1, 3), (4, 2), (2, 4), (1, 2), (2, 1), (2, 7), (7,
      2), (7, 11), (11, 7), (9, 10), (10, 9), (9, 8), (8, 9), (10, 8), (8, 10), (11, 12), (12,
      11), (11, 13), (13, 11)]\<rparr>"
  let ?S8 = "\<lparr>sorted_nodes = [(14, 9, 1), (15, 11, 3), (13, 23 / 2, 29 / 4), (16,
      12, 2), (17, 12, 5), (18, 27 / 2, 6), (19, 14, 29 / 4), (22, 16, 1), (20, 16, 4), (26, 17,
      2), (25, 18, 7 / 2), (21, 18, 17 / 2), (27, 19, 2), (23, 21, 1), (24, 21, 4)], edges =
      [(13, 18), (14, 15), (15, 14), (15, 16), (16, 15), (18, 13), (18, 19), (19, 18), (19, 20),
      (19, 21), (20, 19), (20, 21), (20, 22), (20, 24), (21, 19), (21, 20), (22, 20), (22, 23),
      (23, 22), (23, 24), (24, 20), (24, 23), (25, 26), (25, 27), (26, 25), (26, 27), (27, 25),
      (27, 26)], nodes = [(13, 23 / 2, 29 / 4), (14, 9, 1), (15, 11, 3), (16, 12, 2), (17, 12,
      5), (18, 27 / 2, 6), (19, 14, 29 / 4), (20, 16, 4), (21, 18, 17 / 2), (22, 16, 1), (23,
      21, 1), (24, 21, 4), (25, 18, 7 / 2), (26, 17, 2), (27, 19, 2)], node_coord = [((23 / 2,
      29 / 4), 13), ((9, 1), 14), ((11, 3), 15), ((12, 2), 16), ((12, 5), 17), ((27 / 2, 6),
      18), ((14, 29 / 4), 19), ((16, 4), 20), ((18, 17 / 2), 21), ((16, 1), 22), ((21, 1), 23),
      ((21, 4), 24), ((18, 7 / 2), 25), ((17, 2), 26), ((19, 2), 27)], primitives = [Filament
      [6, 5, 4], Isolated 0, Filament [2, 7, 11]], minimal_cycles = [[3, 4, 2, 1, 3], [9, 10, 8,
      9], [11, 12, 13, 11], [12, 20, 19, 18, 13, 12]], cycle_edge = [(3, 1), (1, 3), (4, 2), (2,
      4), (4, 3), (3, 4), (2, 4), (4, 2), (1, 2), (2, 1), (9, 8), (8, 9), (10, 8), (8, 10), (10,
      9), (9, 10), (8, 10), (10, 8), (11, 13), (13, 11), (12, 11), (11, 12), (13, 12), (12, 13),
      (12, 13), (13, 12), (20, 12), (12, 20), (19, 20), (20, 19), (18, 19), (19, 18), (13, 18),
      (18, 13)], vertices = [(6, 2, 9 / 2), (5, 3, 5), (3, 0, 4), (4, 5, 4), (1, 1, 7), (0, 1,
      8), (2, 4, 7), (7, 13 / 2, 9), (9, 11 / 2, 3), (10, 7, 3), (8, 31 / 5, 5), (11, 15 / 2, 29
      / 4), (12, 8, 4)], ext_edges = [(6, 5), (5, 6), (5, 4), (4, 5), (3, 4), (4, 3), (3, 1),
      (1, 3), (4, 2), (2, 4), (1, 2), (2, 1), (2, 7), (7, 2), (7, 11), (11, 7), (9, 10), (10,
      9), (9, 8), (8, 9), (10, 8), (8, 10), (11, 12), (12, 11), (11, 13), (13, 11), (12, 20),
      (20, 12), (12, 13), (13, 12)]\<rparr>"
  let ?S9 = "\<lparr>sorted_nodes = [(13, 23 / 2, 29 / 4), (17, 12, 5), (18, 27 / 2, 6),
      (19, 14, 29 / 4), (22, 16, 1), (20, 16, 4), (26, 17, 2), (25, 18, 7 / 2), (21, 18, 17 /
      2), (27, 19, 2), (23, 21, 1), (24, 21, 4)], edges = [(13, 18), (18, 13), (18, 19), (19,
      18), (19, 20), (19, 21), (20, 19), (20, 21), (20, 22), (20, 24), (21, 19), (21, 20), (22,
      20), (22, 23), (23, 22), (23, 24), (24, 20), (24, 23), (25, 26), (25, 27), (26, 25), (26,
      27), (27, 25), (27, 26)], nodes = [(13, 23 / 2, 29 / 4), (17, 12, 5), (18, 27 / 2, 6),
      (19, 14, 29 / 4), (20, 16, 4), (21, 18, 17 / 2), (22, 16, 1), (23, 21, 1), (24, 21, 4),
      (25, 18, 7 / 2), (26, 17, 2), (27, 19, 2)], node_coord = [((23 / 2, 29 / 4), 13), ((12,
      5), 17), ((27 / 2, 6), 18), ((14, 29 / 4), 19), ((16, 4), 20), ((18, 17 / 2), 21), ((16,
      1), 22), ((21, 1), 23), ((21, 4), 24), ((18, 7 / 2), 25), ((17, 2), 26), ((19, 2), 27)],
      primitives = [Filament [6, 5, 4], Isolated 0, Filament [2, 7, 11], Filament [14, 15, 16]],
      minimal_cycles = [[3, 4, 2, 1, 3], [9, 10, 8, 9], [11, 12, 13, 11], [12, 20, 19, 18, 13,
      12]], cycle_edge = [(3, 1), (1, 3), (4, 2), (2, 4), (4, 3), (3, 4), (2, 4), (4, 2), (1,
      2), (2, 1), (9, 8), (8, 9), (10, 8), (8, 10), (10, 9), (9, 10), (8, 10), (10, 8), (11,
      13), (13, 11), (12, 11), (11, 12), (13, 12), (12, 13), (12, 13), (13, 12), (20, 12), (12,
      20), (19, 20), (20, 19), (18, 19), (19, 18), (13, 18), (18, 13)], vertices = [(6, 2, 9 /
      2), (5, 3, 5), (3, 0, 4), (4, 5, 4), (1, 1, 7), (0, 1, 8), (2, 4, 7), (7, 13 / 2, 9), (9,
      11 / 2, 3), (10, 7, 3), (8, 31 / 5, 5), (11, 15 / 2, 29 / 4), (12, 8, 4), (14, 9, 1), (15,
      11, 3), (16, 12, 2)], ext_edges = [(6, 5), (5, 6), (5, 4), (4, 5), (3, 4), (4, 3), (3, 1),
      (1, 3), (4, 2), (2, 4), (1, 2), (2, 1), (2, 7), (7, 2), (7, 11), (11, 7), (9, 10), (10,
      9), (9, 8), (8, 9), (10, 8), (8, 10), (11, 12), (12, 11), (11, 13), (13, 11), (12, 20),
      (20, 12), (12, 13), (13, 12), (14, 15), (15, 14), (15, 16), (16, 15), (16, 16), (16,
      16)]\<rparr>"
  let ?S10 = "\<lparr>sorted_nodes = [(17, 12, 5), (19, 14, 29 / 4), (22, 16, 1), (20, 16,
      4), (26, 17, 2), (25, 18, 7 / 2), (21, 18, 17 / 2), (27, 19, 2), (23, 21, 1), (24, 21,
      4)], edges = [(19, 20), (19, 21), (20, 19), (20, 21), (20, 22), (20, 24), (21, 19), (21,
      20), (22, 20), (22, 23), (23, 22), (23, 24), (24, 20), (24, 23), (25, 26), (25, 27), (26,
      25), (26, 27), (27, 25), (27, 26)], nodes = [(17, 12, 5), (19, 14, 29 / 4), (20, 16, 4),
      (21, 18, 17 / 2), (22, 16, 1), (23, 21, 1), (24, 21, 4), (25, 18, 7 / 2), (26, 17, 2),
      (27, 19, 2)], node_coord = [((12, 5), 17), ((14, 29 / 4), 19), ((16, 4), 20), ((18, 17 /
      2), 21), ((16, 1), 22), ((21, 1), 23), ((21, 4), 24), ((18, 7 / 2), 25), ((17, 2), 26),
      ((19, 2), 27)], primitives = [Filament [6, 5, 4], Isolated 0, Filament [2, 7, 11],
      Filament [14, 15, 16]], minimal_cycles = [[3, 4, 2, 1, 3], [9, 10, 8, 9], [11, 12, 13,
      11], [12, 20, 19, 18, 13, 12]], cycle_edge = [(3, 1), (1, 3), (4, 2), (2, 4), (4, 3), (3,
      4), (2, 4), (4, 2), (1, 2), (2, 1), (9, 8), (8, 9), (10, 8), (8, 10), (10, 9), (9, 10),
      (8, 10), (10, 8), (11, 13), (13, 11), (12, 11), (11, 12), (13, 12), (12, 13), (12, 13),
      (13, 12), (20, 12), (12, 20), (19, 20), (20, 19), (18, 19), (19, 18), (13, 18), (18, 13)],
      vertices = [(6, 2, 9 / 2), (5, 3, 5), (3, 0, 4), (4, 5, 4), (1, 1, 7), (0, 1, 8), (2, 4,
      7), (7, 13 / 2, 9), (9, 11 / 2, 3), (10, 7, 3), (8, 31 / 5, 5), (11, 15 / 2, 29 / 4), (12,
      8, 4), (14, 9, 1), (15, 11, 3), (16, 12, 2), (13, 23 / 2, 29 / 4), (18, 27 / 2, 6)],
      ext_edges = [(6, 5), (5, 6), (5, 4), (4, 5), (3, 4), (4, 3), (3, 1), (1, 3), (4, 2), (2,
      4), (1, 2), (2, 1), (2, 7), (7, 2), (7, 11), (11, 7), (9, 10), (10, 9), (9, 8), (8, 9),
      (10, 8), (8, 10), (11, 12), (12, 11), (11, 13), (13, 11), (12, 20), (20, 12), (12, 13),
      (13, 12), (14, 15), (15, 14), (15, 16), (16, 15), (16, 16), (16, 16), (13, 18), (18, 13),
      (18, 19), (19, 18)]\<rparr>"
  let ?S11 = "\<lparr>sorted_nodes = [(19, 14, 29 / 4), (22, 16, 1), (20, 16, 4), (26, 17,
      2), (25, 18, 7 / 2), (21, 18, 17 / 2), (27, 19, 2), (23, 21, 1), (24, 21, 4)], edges =
      [(19, 20), (19, 21), (20, 19), (20, 21), (20, 22), (20, 24), (21, 19), (21, 20), (22, 20),
      (22, 23), (23, 22), (23, 24), (24, 20), (24, 23), (25, 26), (25, 27), (26, 25), (26, 27),
      (27, 25), (27, 26)], nodes = [(19, 14, 29 / 4), (20, 16, 4), (21, 18, 17 / 2), (22, 16,
      1), (23, 21, 1), (24, 21, 4), (25, 18, 7 / 2), (26, 17, 2), (27, 19, 2)], node_coord =
      [((14, 29 / 4), 19), ((16, 4), 20), ((18, 17 / 2), 21), ((16, 1), 22), ((21, 1), 23),
      ((21, 4), 24), ((18, 7 / 2), 25), ((17, 2), 26), ((19, 2), 27)], primitives = [Filament
      [6, 5, 4], Isolated 0, Filament [2, 7, 11], Filament [14, 15, 16], Isolated 17],
      minimal_cycles = [[3, 4, 2, 1, 3], [9, 10, 8, 9], [11, 12, 13, 11], [12, 20, 19, 18, 13,
      12]], cycle_edge = [(3, 1), (1, 3), (4, 2), (2, 4), (4, 3), (3, 4), (2, 4), (4, 2), (1,
      2), (2, 1), (9, 8), (8, 9), (10, 8), (8, 10), (10, 9), (9, 10), (8, 10), (10, 8), (11,
      13), (13, 11), (12, 11), (11, 12), (13, 12), (12, 13), (12, 13), (13, 12), (20, 12), (12,
      20), (19, 20), (20, 19), (18, 19), (19, 18), (13, 18), (18, 13)], vertices = [(6, 2, 9 /
      2), (5, 3, 5), (3, 0, 4), (4, 5, 4), (1, 1, 7), (0, 1, 8), (2, 4, 7), (7, 13 / 2, 9), (9,
      11 / 2, 3), (10, 7, 3), (8, 31 / 5, 5), (11, 15 / 2, 29 / 4), (12, 8, 4), (14, 9, 1), (15,
      11, 3), (16, 12, 2), (13, 23 / 2, 29 / 4), (18, 27 / 2, 6), (17, 12, 5)], ext_edges = [(6,
      5), (5, 6), (5, 4), (4, 5), (3, 4), (4, 3), (3, 1), (1, 3), (4, 2), (2, 4), (1, 2), (2,
      1), (2, 7), (7, 2), (7, 11), (11, 7), (9, 10), (10, 9), (9, 8), (8, 9), (10, 8), (8, 10),
      (11, 12), (12, 11), (11, 13), (13, 11), (12, 20), (20, 12), (12, 13), (13, 12), (14, 15),
      (15, 14), (15, 16), (16, 15), (16, 16), (16, 16), (13, 18), (18, 13), (18, 19), (19,
      18)]\<rparr>"
  let ?S12 = "\<lparr>sorted_nodes = [(22, 16, 1), (20, 16, 4), (26, 17, 2), (25, 18, 7 /
      2), (21, 18, 17 / 2), (27, 19, 2), (23, 21, 1), (24, 21, 4)], edges = [(20, 21), (20, 22),
      (20, 24), (21, 20), (22, 20), (22, 23), (23, 22), (23, 24), (24, 20), (24, 23), (25, 26),
      (25, 27), (26, 25), (26, 27), (27, 25), (27, 26)], nodes = [(20, 16, 4), (21, 18, 17 / 2),
      (22, 16, 1), (23, 21, 1), (24, 21, 4), (25, 18, 7 / 2), (26, 17, 2), (27, 19, 2)],
      node_coord = [((16, 4), 20), ((18, 17 / 2), 21), ((16, 1), 22), ((21, 1), 23), ((21, 4),
      24), ((18, 7 / 2), 25), ((17, 2), 26), ((19, 2), 27)], primitives = [Filament [6, 5, 4],
      Isolated 0, Filament [2, 7, 11], Filament [14, 15, 16], Isolated 17], minimal_cycles =
      [[3, 4, 2, 1, 3], [9, 10, 8, 9], [11, 12, 13, 11], [12, 20, 19, 18, 13, 12], [19, 20, 21,
      19]], cycle_edge = [(3, 1), (1, 3), (4, 2), (2, 4), (4, 3), (3, 4), (2, 4), (4, 2), (1,
      2), (2, 1), (9, 8), (8, 9), (10, 8), (8, 10), (10, 9), (9, 10), (8, 10), (10, 8), (11,
      13), (13, 11), (12, 11), (11, 12), (13, 12), (12, 13), (12, 13), (13, 12), (20, 12), (12,
      20), (19, 20), (20, 19), (18, 19), (19, 18), (13, 18), (18, 13), (19, 21), (21, 19), (20,
      19), (19, 20), (21, 20), (20, 21)], vertices = [(6, 2, 9 / 2), (5, 3, 5), (3, 0, 4), (4,
      5, 4), (1, 1, 7), (0, 1, 8), (2, 4, 7), (7, 13 / 2, 9), (9, 11 / 2, 3), (10, 7, 3), (8, 31
      / 5, 5), (11, 15 / 2, 29 / 4), (12, 8, 4), (14, 9, 1), (15, 11, 3), (16, 12, 2), (13, 23 /
      2, 29 / 4), (18, 27 / 2, 6), (17, 12, 5), (19, 14, 29 / 4)], ext_edges = [(6, 5), (5, 6),
      (5, 4), (4, 5), (3, 4), (4, 3), (3, 1), (1, 3), (4, 2), (2, 4), (1, 2), (2, 1), (2, 7),
      (7, 2), (7, 11), (11, 7), (9, 10), (10, 9), (9, 8), (8, 9), (10, 8), (8, 10), (11, 12),
      (12, 11), (11, 13), (13, 11), (12, 20), (20, 12), (12, 13), (13, 12), (14, 15), (15, 14),
      (15, 16), (16, 15), (16, 16), (16, 16), (13, 18), (18, 13), (18, 19), (19, 18), (19, 20),
      (20, 19), (19, 21), (21, 19)]\<rparr>"
  let ?S13 = "\<lparr>sorted_nodes = [(20, 16, 4), (26, 17, 2), (25, 18, 7 / 2), (21, 18,
      17 / 2), (27, 19, 2), (24, 21, 4)], edges = [(20, 21), (20, 24), (21, 20), (24, 20), (25,
      26), (25, 27), (26, 25), (26, 27), (27, 25), (27, 26)], nodes = [(20, 16, 4), (21, 18, 17
      / 2), (24, 21, 4), (25, 18, 7 / 2), (26, 17, 2), (27, 19, 2)], node_coord = [((16, 4),
      20), ((18, 17 / 2), 21), ((21, 4), 24), ((18, 7 / 2), 25), ((17, 2), 26), ((19, 2), 27)],
      primitives = [Filament [6, 5, 4], Isolated 0, Filament [2, 7, 11], Filament [14, 15, 16],
      Isolated 17], minimal_cycles = [[3, 4, 2, 1, 3], [9, 10, 8, 9], [11, 12, 13, 11], [12, 20,
      19, 18, 13, 12], [19, 20, 21, 19], [22, 23, 24, 20, 22]], cycle_edge = [(3, 1), (1, 3),
      (4, 2), (2, 4), (4, 3), (3, 4), (2, 4), (4, 2), (1, 2), (2, 1), (9, 8), (8, 9), (10, 8),
      (8, 10), (10, 9), (9, 10), (8, 10), (10, 8), (11, 13), (13, 11), (12, 11), (11, 12), (13,
      12), (12, 13), (12, 13), (13, 12), (20, 12), (12, 20), (19, 20), (20, 19), (18, 19), (19,
      18), (13, 18), (18, 13), (19, 21), (21, 19), (20, 19), (19, 20), (21, 20), (20, 21), (22,
      20), (20, 22), (23, 24), (24, 23), (23, 22), (22, 23), (24, 23), (23, 24), (20, 24), (24,
      20)], vertices = [(6, 2, 9 / 2), (5, 3, 5), (3, 0, 4), (4, 5, 4), (1, 1, 7), (0, 1, 8),
      (2, 4, 7), (7, 13 / 2, 9), (9, 11 / 2, 3), (10, 7, 3), (8, 31 / 5, 5), (11, 15 / 2, 29 /
      4), (12, 8, 4), (14, 9, 1), (15, 11, 3), (16, 12, 2), (13, 23 / 2, 29 / 4), (18, 27 / 2,
      6), (17, 12, 5), (19, 14, 29 / 4), (22, 16, 1), (23, 21, 1)], ext_edges = [(6, 5), (5, 6),
      (5, 4), (4, 5), (3, 4), (4, 3), (3, 1), (1, 3), (4, 2), (2, 4), (1, 2), (2, 1), (2, 7),
      (7, 2), (7, 11), (11, 7), (9, 10), (10, 9), (9, 8), (8, 9), (10, 8), (8, 10), (11, 12),
      (12, 11), (11, 13), (13, 11), (12, 20), (20, 12), (12, 13), (13, 12), (14, 15), (15, 14),
      (15, 16), (16, 15), (16, 16), (16, 16), (13, 18), (18, 13), (18, 19), (19, 18), (19, 20),
      (20, 19), (19, 21), (21, 19), (22, 23), (23, 22), (22, 20), (20, 22), (23, 24), (24,
      23)]\<rparr>"
  let ?S14 = "\<lparr>sorted_nodes = [(26, 17, 2), (25, 18, 7 / 2), (27, 19, 2)], edges =
      [(25, 26), (25, 27), (26, 25), (26, 27), (27, 25), (27, 26)], nodes = [(25, 18, 7 / 2),
      (26, 17, 2), (27, 19, 2)], node_coord = [((18, 7 / 2), 25), ((17, 2), 26), ((19, 2), 27)],
      primitives = [Filament [6, 5, 4], Isolated 0, Filament [2, 7, 11], Filament [14, 15, 16],
      Isolated 17], minimal_cycles = [[3, 4, 2, 1, 3], [9, 10, 8, 9], [11, 12, 13, 11], [12, 20,
      19, 18, 13, 12], [19, 20, 21, 19], [22, 23, 24, 20, 22]], cycle_edge = [(3, 1), (1, 3),
      (4, 2), (2, 4), (4, 3), (3, 4), (2, 4), (4, 2), (1, 2), (2, 1), (9, 8), (8, 9), (10, 8),
      (8, 10), (10, 9), (9, 10), (8, 10), (10, 8), (11, 13), (13, 11), (12, 11), (11, 12), (13,
      12), (12, 13), (12, 13), (13, 12), (20, 12), (12, 20), (19, 20), (20, 19), (18, 19), (19,
      18), (13, 18), (18, 13), (19, 21), (21, 19), (20, 19), (19, 20), (21, 20), (20, 21), (22,
      20), (20, 22), (23, 24), (24, 23), (23, 22), (22, 23), (24, 23), (23, 24), (20, 24), (24,
      20)], vertices = [(6, 2, 9 / 2), (5, 3, 5), (3, 0, 4), (4, 5, 4), (1, 1, 7), (0, 1, 8),
      (2, 4, 7), (7, 13 / 2, 9), (9, 11 / 2, 3), (10, 7, 3), (8, 31 / 5, 5), (11, 15 / 2, 29 /
      4), (12, 8, 4), (14, 9, 1), (15, 11, 3), (16, 12, 2), (13, 23 / 2, 29 / 4), (18, 27 / 2,
      6), (17, 12, 5), (19, 14, 29 / 4), (22, 16, 1), (23, 21, 1), (24, 21, 4), (20, 16, 4),
      (21, 18, 17 / 2)], ext_edges = [(6, 5), (5, 6), (5, 4), (4, 5), (3, 4), (4, 3), (3, 1),
      (1, 3), (4, 2), (2, 4), (1, 2), (2, 1), (2, 7), (7, 2), (7, 11), (11, 7), (9, 10), (10,
      9), (9, 8), (8, 9), (10, 8), (8, 10), (11, 12), (12, 11), (11, 13), (13, 11), (12, 20),
      (20, 12), (12, 13), (13, 12), (14, 15), (15, 14), (15, 16), (16, 15), (16, 16), (16, 16),
      (13, 18), (18, 13), (18, 19), (19, 18), (19, 20), (20, 19), (19, 21), (21, 19), (22, 23),
      (23, 22), (22, 20), (20, 22), (23, 24), (24, 23), (24, 20), (20, 24), (20, 21), (21,
      20)]\<rparr>"
  let ?S15 = "\<lparr>sorted_nodes = [], edges = [], nodes = [], node_coord = [],
      primitives = [Filament [6, 5, 4], Isolated 0, Filament [2, 7, 11], Filament [14, 15, 16],
      Isolated 17], minimal_cycles = [[3, 4, 2, 1, 3], [9, 10, 8, 9], [11, 12, 13, 11], [12, 20,
      19, 18, 13, 12], [19, 20, 21, 19], [22, 23, 24, 20, 22], [26, 27, 25, 26]], cycle_edge =
      [(3, 1), (1, 3), (4, 2), (2, 4), (4, 3), (3, 4), (2, 4), (4, 2), (1, 2), (2, 1), (9, 8),
      (8, 9), (10, 8), (8, 10), (10, 9), (9, 10), (8, 10), (10, 8), (11, 13), (13, 11), (12,
      11), (11, 12), (13, 12), (12, 13), (12, 13), (13, 12), (20, 12), (12, 20), (19, 20), (20,
      19), (18, 19), (19, 18), (13, 18), (18, 13), (19, 21), (21, 19), (20, 19), (19, 20), (21,
      20), (20, 21), (22, 20), (20, 22), (23, 24), (24, 23), (23, 22), (22, 23), (24, 23), (23,
      24), (20, 24), (24, 20), (26, 25), (25, 26), (27, 25), (25, 27), (27, 26), (26, 27), (25,
      27), (27, 25)], vertices = [(6, 2, 9 / 2), (5, 3, 5), (3, 0, 4), (4, 5, 4), (1, 1, 7), (0,
      1, 8), (2, 4, 7), (7, 13 / 2, 9), (9, 11 / 2, 3), (10, 7, 3), (8, 31 / 5, 5), (11, 15 / 2,
      29 / 4), (12, 8, 4), (14, 9, 1), (15, 11, 3), (16, 12, 2), (13, 23 / 2, 29 / 4), (18, 27 /
      2, 6), (17, 12, 5), (19, 14, 29 / 4), (22, 16, 1), (23, 21, 1), (24, 21, 4), (20, 16, 4),
      (21, 18, 17 / 2), (26, 17, 2), (27, 19, 2), (25, 18, 7 / 2)], ext_edges = [(6, 5), (5, 6),
      (5, 4), (4, 5), (3, 4), (4, 3), (3, 1), (1, 3), (4, 2), (2, 4), (1, 2), (2, 1), (2, 7),
      (7, 2), (7, 11), (11, 7), (9, 10), (10, 9), (9, 8), (8, 9), (10, 8), (8, 10), (11, 12),
      (12, 11), (11, 13), (13, 11), (12, 20), (20, 12), (12, 13), (13, 12), (14, 15), (15, 14),
      (15, 16), (16, 15), (16, 16), (16, 16), (13, 18), (18, 13), (18, 19), (19, 18), (19, 20),
      (20, 19), (19, 21), (21, 19), (22, 23), (23, 22), (22, 20), (20, 22), (23, 24), (24, 23),
      (24, 20), (20, 24), (20, 21), (21, 20), (26, 27), (27, 26), (26, 25), (25, 26), (27, 25),
      (25, 27)]\<rparr>"
  have init: "init_state eberly_vertices eberly_edges = ?S0"
    by (simp add: init_state_def eberly_vertices_def eberly_edges_def)
  have a0: "extract_primitives 99 3 ?S0 = Inr ?S1"
    by (simp add: rg_defs)
  have s0: "main_loop 100 ?S0 = main_loop 99 ?S1"
    by (subst main_loop_numeral) (simp add: a0 adj_nodes_def bind_err_def)
  have a1: "extract_primitives 98 3 ?S1 = Inr ?S2"
    by (simp add: rg_defs)
  have s1: "main_loop 99 ?S1 = main_loop 98 ?S2"
    by (subst main_loop_numeral) (simp add: a1 adj_nodes_def bind_err_def)
  have a2: "extractfilament 97 1 2 ?S2 = Inr ?S3"
    by (simp add: rg_defs)
  have s2: "main_loop 98 ?S2 = main_loop 97 ?S3"
    by (subst main_loop_numeral) (simp add: a2 adj_nodes_def bind_err_def)
  have s3: "main_loop 97 ?S3 = main_loop 96 ?S4"
    by (subst main_loop_numeral) (simp add: adj_nodes_def bind_err_def extractisolated_def
      remove_node_def)
  have a4: "extractfilament 95 2 7 ?S4 = Inr ?S5"
    by (simp add: rg_defs)
  have s4: "main_loop 96 ?S4 = main_loop 95 ?S5"
    by (subst main_loop_numeral) (simp add: a4 adj_nodes_def bind_err_def)
  have a5: "extract_primitives 94 9 ?S5 = Inr ?S6"
    by (simp add: rg_defs)
  have s5: "main_loop 95 ?S5 = main_loop 94 ?S6"
    by (subst main_loop_numeral) (simp add: a5 adj_nodes_def bind_err_def)
  have a6: "extract_primitives 93 11 ?S6 = Inr ?S7"
    by (simp add: rg_defs)
  have s6: "main_loop 94 ?S6 = main_loop 93 ?S7"
    by (subst main_loop_numeral) (simp add: a6 adj_nodes_def bind_err_def)
  have a7: "extract_primitives 92 12 ?S7 = Inr ?S8"
    by (simp add: rg_defs)
  have s7: "main_loop 93 ?S7 = main_loop 92 ?S8"
    by (subst main_loop_numeral) (simp add: a7 adj_nodes_def bind_err_def)
  have a8: "extractfilament 91 14 15 ?S8 = Inr ?S9"
    by (simp add: rg_defs)
  have s8: "main_loop 92 ?S8 = main_loop 91 ?S9"
    by (subst main_loop_numeral) (simp add: a8 adj_nodes_def bind_err_def)
  have a9: "extractfilament 90 13 18 ?S9 = Inr ?S10"
    by (simp add: rg_defs)
  have s9: "main_loop 91 ?S9 = main_loop 90 ?S10"
    by (subst main_loop_numeral) (simp add: a9 adj_nodes_def bind_err_def)
  have s10: "main_loop 90 ?S10 = main_loop 89 ?S11"
    by (subst main_loop_numeral) (simp add: adj_nodes_def bind_err_def extractisolated_def
      remove_node_def)
  have a11: "extract_primitives 88 19 ?S11 = Inr ?S12"
    by (simp add: rg_defs)
  have s11: "main_loop 89 ?S11 = main_loop 88 ?S12"
    by (subst main_loop_numeral) (simp add: a11 adj_nodes_def bind_err_def)
  have a12: "extract_primitives 87 22 ?S12 = Inr ?S13"
    by (simp add: rg_defs)
  have s12: "main_loop 88 ?S12 = main_loop 87 ?S13"
    by (subst main_loop_numeral) (simp add: a12 adj_nodes_def bind_err_def)
  have a13: "extract_primitives 86 20 ?S13 = Inr ?S14"
    by (simp add: rg_defs)
  have s13: "main_loop 87 ?S13 = main_loop 86 ?S14"
    by (subst main_loop_numeral) (simp add: a13 adj_nodes_def bind_err_def)
  have a14: "extract_primitives 85 26 ?S14 = Inr ?S15"
    by (simp add: rg_defs)
  have s14: "main_loop 86 ?S14 = main_loop 85 ?S15"
    by (subst main_loop_numeral) (simp add: a14 adj_nodes_def bind_err_def)
  have fin: "main_loop 85 ?S15 = Inr ?S15"
    by (subst main_loop_numeral) simp
  have "run_extraction 100 eberly_vertices eberly_edges = main_loop 100 ?S0"
    by (simp add: run_extraction_def init)
  also have "\<dots> = Inr ?S15"
    by (simp only: s0 s1 s2 s3 s4 s5 s6 s7 s8 s9 s10 s11 s12 s13 s14 fin)
  finally show ?thesis .
qed

text \<open>
  C8. With the coordinates read as exact numbers, \<open>regions_from_graph\<close> returns on the
  graph of the docstring, with seven cycles, among them \<open>[9, 10, 8, 9]\<close> and
  \<open>[26, 27, 25, 26]\<close>, and with the three filaments \<open>[6, 5, 4]\<close>, \<open>[2, 7, 11]\<close> and
  \<open>[14, 15, 16]\<close>.
\<close>

theorem eberly_regions_and_filaments:
  "\<not> isl (regions_from_graph 100 eberly_vertices eberly_edges) \<and>
   regions (projr (regions_from_graph 100 eberly_vertices eberly_edges)) =
     [[3, 4, 2, 1, 3], [9, 10, 8, 9], [11, 12, 13, 11], [12, 20, 19, 18, 13, 12],
      [19, 20, 21, 19], [22, 23, 24, 20, 22], [26, 27, 25, 26]] \<and>
   length (regions (projr (regions_from_graph 100 eberly_vertices eberly_edges))) = 7 \<and>
   filaments (projr (regions_from_graph 100 eberly_vertices eberly_edges)) =
     [[6, 5, 4], [2, 7, 11], [14, 15, 16]] \<and>
   [9, 10, 8, 9] \<in> set (regions (projr (regions_from_graph 100 eberly_vertices eberly_edges))) \<and>
   [26, 27, 25, 26] \<in> set (regions (projr (regions_from_graph 100 eberly_vertices eberly_edges)))"
  by (simp add: regions_from_graph_def eberly_extraction bind_err_def results_of_def)

subsection \<open>The triangle S1\<close>

lemma s1_check: "check_edges s1_edges = [(0, 1), (1, 0), (1, 2), (2, 1), (2, 0), (0, 2)] \<and> makes_double s1_edges"
  by (simp add: check_edges_def makes_double_def seen_twice_def twin_def card_insert_if s1_edges_def)

lemma s1_extraction:
  "run_extraction 20 s1_coords [(0, 1), (1, 0), (1, 2), (2, 1), (2, 0), (0, 2)] =
     Inr \<lparr>sorted_nodes = [], edges = [], nodes = [], node_coord = [], primitives = [],
          minimal_cycles = [[0, 1, 2, 0]],
          cycle_edge = [(0, 2), (2, 0), (1, 2), (2, 1), (1, 0), (0, 1), (2, 1), (1, 2)],
          vertices = [(0, 0, 0), (1, 1, 0), (2, 0, 1)],
          ext_edges = [(0, 1), (1, 0), (0, 2), (2, 0), (1, 2), (2, 1)]\<rparr>"
  by (simp add: run_extraction_def init_state_def s1_coords_def rg_defs)

lemma s1_construction:
  "WED_init contains_point 20 s1_edges s1_coords =
   Inr \<lparr>built =
        \<lparr>start_c = [((0, 2), 1, 0), ((2, 1), 0, 2), ((1, 0), 2, 1)],
           start_cc =
             [((2, 0), 2, 1), ((1, 2), 1, 0), ((0, 1), 0, 2),
              ((0, 2), 1, 0), ((1, 0), 2, 1), ((2, 1), 0, 2)],
           end_c =
             [((2, 0), 1, 0), ((1, 2), 0, 2), ((0, 1), 2, 1),
              ((0, 2), 2, 1), ((1, 0), 0, 2), ((2, 1), 1, 0)],
           end_cc = [((0, 2), 2, 1), ((2, 1), 1, 0), ((1, 0), 0, 2)],
           region_edge = [(0, 1, 0)],
           node_edge = [(0, 0, 2), (2, 0, 2), (1, 2, 1)],
           right_polygon = [((0, 2), 0), ((2, 1), 0), ((1, 0), 0)],
           left_polygon =
             [((2, 0), 0), ((1, 2), 0), ((0, 1), 0), ((0, 2), 1),
              ((2, 1), 1), ((1, 0), 1)],
           start_node =
             [((0, 1), 0), ((1, 0), 1), ((0, 2), 0), ((2, 0), 2),
              ((1, 2), 1), ((2, 1), 2)],
           end_node =
             [((0, 1), 1), ((1, 0), 0), ((0, 2), 2), ((2, 0), 0),
              ((1, 2), 2), ((2, 1), 1)],
           node_coords = [(0, 0, 0), (1, 1, 0), (2, 0, 1)],
           edge_list = [(0, 1), (1, 0), (1, 2), (2, 1), (2, 0), (0, 2)]\<rparr>,
        caller_coords = [], caller_edges = [(0, 1), (1, 2), (2, 0)]\<rparr>"
  by (simp add: WED_init_def s1_check)
    (simp add: wed_defs s1_extraction[unfolded s1_coords_def] s1_coords_def s1_edges_def cong: bind_err_arg Let_arg)

lemma s1_doubled_check:
  "check_edges [(0, 1), (1, 0), (1, 2), (2, 1), (2, 0), (0, 2)] =
     [(0, 1), (1, 0), (1, 2), (2, 1), (2, 0), (0, 2)] \<and>
   \<not> makes_double [(0, 1), (1, 0), (1, 2), (2, 1), (2, 0), (0, 2)]"
  by (simp add: check_edges_def makes_double_def seen_twice_def twin_def card_insert_if)

lemma s1_doubled_construction:
  "WED_init contains_point 20 [(0, 1), (1, 0), (1, 2), (2, 1), (2, 0), (0, 2)] s1_coords =
   Inr \<lparr>built = \<lparr>start_c = [((0, 2), 1, 0), ((2, 1), 0, 2), ((1, 0), 2, 1)],
   start_cc = [((2, 0), 2, 1), ((1, 2), 1, 0), ((0, 1), 0, 2), ((0, 2), 1, 0), ((1, 0), 2, 1),
   ((2, 1), 0, 2)], end_c = [((2, 0), 1, 0), ((1, 2), 0, 2), ((0, 1), 2, 1), ((0, 2), 2, 1),
   ((1, 0), 0, 2), ((2, 1), 1, 0)], end_cc = [((0, 2), 2, 1), ((2, 1), 1, 0), ((1, 0), 0, 2)],
   region_edge = [(0, 1, 0)], node_edge = [(0, 0, 2), (2, 0, 2), (1, 2, 1)], right_polygon =
   [((0, 2), 0), ((2, 1), 0), ((1, 0), 0)], left_polygon = [((2, 0), 0), ((1, 2), 0), ((0, 1),
   0), ((0, 2), 1), ((2, 1), 1), ((1, 0), 1)], start_node = [((0, 1), 0), ((1, 0), 1), ((0, 2),
   0), ((2, 0), 2), ((1, 2), 1), ((2, 1), 2)], end_node = [((0, 1), 1), ((1, 0), 0), ((0, 2),
   2), ((2, 0), 0), ((1, 2), 2), ((2, 1), 1)], node_coords = [(0, 0, 0), (1, 1, 0), (2, 0, 1)],
   edge_list = [(0, 1), (1, 0), (1, 2), (2, 1), (2, 0), (0, 2)]\<rparr>, caller_coords = [],
   caller_edges = []\<rparr>"
  by (simp add: WED_init_def s1_doubled_check)
    (simp add: wed_defs s1_extraction[unfolded s1_coords_def] s1_coords_def
       cong: bind_err_arg Let_arg)

subsection \<open>The triangle with a self-loop, the triangle with a filament, two triangles\<close>

lemma loop_check:
  "check_edges loop_edges = [(0, 1), (1, 0), (1, 2), (2, 1), (2, 0), (0, 2), (1, 1), (1, 1)] \<and>
   makes_double loop_edges"
  by (simp add: check_edges_def makes_double_def seen_twice_def twin_def card_insert_if
      loop_edges_def)

lemma loop_extraction:
  "run_extraction 20 s1_coords [(0, 1), (1, 0), (1, 2), (2, 1), (2, 0), (0, 2), (1, 1), (1, 1)] =
     Inr \<lparr>sorted_nodes = [], edges = [], nodes = [(1, 1, 0)], node_coord = [((1, 0), 1)],
          primitives = [], minimal_cycles = [[0, 1, 2, 0], [1, 1]],
          cycle_edge = [(0, 2), (2, 0), (1, 0), (0, 1), (2, 1), (1, 2)],
          vertices = [(0, 0, 0), (2, 0, 1)],
          ext_edges = [(0, 1), (1, 0), (0, 2), (2, 0), (2, 1), (1, 2), (1, 1), (1, 1)]\<rparr>"
  by (simp add: run_extraction_def init_state_def s1_coords_def rg_defs)

lemma loop_construction:
  "WED_init contains_point 20 loop_edges s1_coords =
   Inr \<lparr>built = \<lparr>start_c = [((0, 2), 1, 0), ((2, 1), 0, 2), ((1, 0), 2, 1), ((1,
   1), 1, 1)], start_cc = [((2, 0), 2, 1), ((1, 2), 1, 0), ((0, 1), 0, 2), ((1, 1), 1, 1), ((0,
   2), 1, 0), ((1, 0), 2, 1), ((2, 1), 0, 2)], end_c = [((2, 0), 1, 0), ((1, 2), 0, 2), ((0, 1),
   2, 1), ((1, 1), 1, 1), ((0, 2), 2, 1), ((1, 0), 0, 2), ((2, 1), 1, 0)], end_cc = [((0, 2), 2,
   1), ((2, 1), 1, 0), ((1, 0), 0, 2), ((1, 1), 1, 1)], region_edge = [(0, 1, 0), (1, 1, 1)],
   node_edge = [(0, 0, 2), (2, 0, 2), (1, 2, 1)], right_polygon = [((0, 2), 0), ((2, 1), 0),
   ((1, 0), 0), ((1, 1), 1)], left_polygon = [((2, 0), 0), ((1, 2), 0), ((0, 1), 0), ((1, 1),
   1), ((0, 2), 2), ((2, 1), 2), ((1, 0), 2)], start_node = [((0, 1), 0), ((1, 0), 1), ((0, 2),
   0), ((2, 0), 2), ((2, 1), 2), ((1, 2), 1)], end_node = [((0, 1), 1), ((1, 0), 0), ((0, 2),
   2), ((2, 0), 0), ((2, 1), 1), ((1, 2), 2)], node_coords = [(0, 0, 0), (1, 1, 0), (2, 0, 1)],
   edge_list = [(0, 1), (1, 0), (1, 2), (2, 1), (2, 0), (0, 2), (1, 1), (1, 1)]\<rparr>,
   caller_coords = [(1, 1, 0)], caller_edges = [(0, 1), (1, 2), (2, 0), (1, 1)]\<rparr>"
  by (simp add: WED_init_def loop_check)
    (simp add: wed_defs loop_extraction[unfolded s1_coords_def] s1_coords_def loop_edges_def
       cong: bind_err_arg Let_arg)

lemma s5_check:
  "check_edges s5_edges = [(0, 1), (1, 0), (1, 2), (2, 1), (2, 0), (0, 2), (1, 3), (3, 1)] \<and>
   makes_double s5_edges"
  by (simp add: check_edges_def makes_double_def seen_twice_def twin_def card_insert_if
      s5_edges_def)

lemma s5_extraction:
  "run_extraction 20 s5_coords [(0, 1), (1, 0), (1, 2), (2, 1), (2, 0), (0, 2), (1, 3), (3, 1)] =
     Inr \<lparr>sorted_nodes = [], edges = [], nodes = [], node_coord = [],
          primitives = [Filament [1, 3]], minimal_cycles = [[0, 1, 2, 0]],
          cycle_edge = [(0, 2), (2, 0), (1, 0), (0, 1), (2, 1), (1, 2)],
          vertices = [(0, 0, 0), (2, 0, 1), (1, 1, 0), (3, 2, 2)],
          ext_edges = [(0, 1), (1, 0), (0, 2), (2, 0), (2, 1), (1, 2), (1, 3), (3, 1), (3, 3),
                       (3, 3)]\<rparr>"
  by (simp add: run_extraction_def init_state_def s5_coords_def rg_defs)

lemmas fil_defs = filament_pointers_def fil_wrap_def filament_links_node_def link_angle_def
  towards_def splice_def filament_neighbour_def insert_at_def

lemma s5_construction:
  assumes "\<not> inside [(0, 0), (1, 0), (0, 1)] (2, 2)"
  shows "WED_init inside 20 s5_edges s5_coords =
   Inr \<lparr>built = \<lparr>start_c = [((0, 2), 1, 0), ((2, 1), 0, 2), ((1, 0), 2, 1), ((1,
   3), 0, 1), ((1, 2), 1, 3)], start_cc = [((2, 0), 2, 1), ((1, 2), 1, 0), ((0, 1), 0, 2), ((0,
   2), 1, 0), ((1, 0), 1, 3), ((2, 1), 0, 2), ((1, 3), 2, 1)], end_c = [((2, 0), 1, 0), ((1, 2),
   0, 2), ((0, 1), 2, 1), ((0, 2), 2, 1), ((1, 0), 0, 2), ((2, 1), 1, 3), ((1, 3), 1, 3), ((3,
   1), 1, 0)], end_cc = [((0, 2), 2, 1), ((2, 1), 1, 0), ((1, 0), 0, 2), ((1, 3), 3, 1), ((3,
   1), 1, 2), ((0, 1), 1, 3)], region_edge = [(0, 1, 0)], node_edge = [(0, 0, 2), (2, 0, 2), (1,
   2, 1), (3, 1, 3)], right_polygon = [((0, 2), 0), ((2, 1), 0), ((1, 0), 0)], left_polygon =
   [((2, 0), 0), ((1, 2), 0), ((0, 1), 0), ((0, 2), 1), ((2, 1), 1), ((1, 0), 1)], start_node =
   [((0, 1), 0), ((1, 0), 1), ((0, 2), 0), ((2, 0), 2), ((2, 1), 2), ((1, 2), 1), ((1, 3), 1),
   ((3, 1), 3)], end_node = [((0, 1), 1), ((1, 0), 0), ((0, 2), 2), ((2, 0), 0), ((2, 1), 1),
   ((1, 2), 2), ((1, 3), 3), ((3, 1), 1)], node_coords = [(0, 0, 0), (1, 1, 0), (2, 0, 1), (3,
   2, 2)], edge_list = [(0, 1), (1, 0), (1, 2), (2, 1), (2, 0), (0, 2), (1, 3), (3, 1)]\<rparr>,
   caller_coords = [], caller_edges = [(0, 1), (1, 2), (2, 0), (1, 3)]\<rparr>"
  using assms theta_deg_filament
  by (simp add: WED_init_def s5_check)
    (simp add: wed_defs fil_defs theta_deg_up_left theta_deg_left
       s5_extraction[unfolded s5_coords_def] s5_coords_def s5_edges_def
       cong: bind_err_arg Let_arg)

lemma s5_outside: "\<not> contains_point [(0, 0), (1, 0), (0, 1)] (2, 2)"
  by (simp add: contains_point_def ray_crosses_def)

lemma bowtie_check:
  "check_edges bowtie_edges =
     [(0, 1), (1, 0), (1, 2), (2, 1), (2, 0), (0, 2), (0, 3), (3, 0), (3, 4), (4, 3), (4, 0),
      (0, 4)] \<and>
   makes_double bowtie_edges"
  by (simp add: check_edges_def makes_double_def seen_twice_def twin_def card_insert_if
      bowtie_edges_def)

lemma bowtie_extraction:
  "run_extraction 20 bowtie_coords
     [(0, 1), (1, 0), (1, 2), (2, 1), (2, 0), (0, 2), (0, 3), (3, 0), (3, 4), (4, 3), (4, 0),
      (0, 4)] =
     Inr \<lparr>sorted_nodes = [], edges = [], nodes = [], node_coord = [], primitives = [],
          minimal_cycles = [[1, 2, 0, 1], [0, 4, 3, 0]],
          cycle_edge = [(1, 0), (0, 1), (2, 0), (0, 2), (2, 1), (1, 2), (0, 2), (2, 0), (0, 3),
                        (3, 0), (4, 3), (3, 4), (4, 0), (0, 4), (3, 4), (4, 3)],
          vertices = [(1, 0, - 1), (2, 4, - 3), (0, 0, 0), (4, 3, 0), (3, 0, 4)],
          ext_edges = [(1, 2), (2, 1), (1, 0), (0, 1), (2, 0), (0, 2), (0, 4), (4, 0), (0, 3),
                       (3, 0), (4, 3), (3, 4)]\<rparr>"
  by (simp add: run_extraction_def init_state_def bowtie_coords_def rg_defs)

lemma bowtie_choice:
  "choose_next (map snd bowtie_coords) (4, 0) [(0, 2), (0, 3)] = Inr 1"
  using arccos_four_fifths
  by (simp add: choose_next_def bowtie_coords_def pos_get_def vangle_def vlength_def
      dotproduct_def psub_def bind_err_def sqrt_9 sqrt_16 sqrt_25)

lemma bowtie_unions:
  "find_unions 20 (map snd bowtie_coords) [(1, 0), (0, 2), (2, 1), (0, 3), (3, 4), (4, 0)] [] =
     Inr [[(4, 0), (0, 3), (3, 4)], [(2, 1), (1, 0), (0, 2)]]"
  by (simp add: bowtie_choice[unfolded bowtie_coords_def, simplified] bowtie_coords_def
      choose_next_few find_unions_numeral trace_path_numeral bind_err_Inr bind_err_Inl Let_def
      cong: bind_err_arg Let_arg)

lemma bowtie_construction:
  "WED_init contains_point 20 bowtie_edges bowtie_coords =
   Inr \<lparr>built = \<lparr>start_c = [((1, 0), 2, 1), ((0, 2), 1, 0), ((2, 1), 0, 2), ((0,
   3), 4, 0), ((3, 4), 0, 3), ((4, 0), 3, 4)], start_cc = [((0, 1), 0, 2), ((2, 0), 2, 1), ((1,
   2), 1, 0), ((3, 0), 3, 4), ((4, 3), 4, 0), ((0, 4), 0, 3), ((0, 3), 4, 0), ((4, 0), 3, 4),
   ((3, 4), 0, 3), ((1, 0), 2, 1), ((2, 1), 0, 2), ((0, 2), 1, 0)], end_c = [((0, 1), 2, 1),
   ((2, 0), 1, 0), ((1, 2), 0, 2), ((3, 0), 4, 0), ((4, 3), 0, 3), ((0, 4), 3, 4), ((0, 3), 3,
   4), ((4, 0), 0, 3), ((3, 4), 4, 0), ((1, 0), 0, 2), ((2, 1), 1, 0), ((0, 2), 2, 1)], end_cc =
   [((1, 0), 0, 2), ((0, 2), 2, 1), ((2, 1), 1, 0), ((0, 3), 3, 4), ((3, 4), 4, 0), ((4, 0), 0,
   3)], region_edge = [(0, 2, 1), (1, 4, 0)], node_edge = [(1, 1, 0), (0, 1, 0), (2, 0, 2), (3,
   0, 3), (4, 3, 4)], right_polygon = [((1, 0), 0), ((0, 2), 0), ((2, 1), 0), ((0, 3), 1), ((3,
   4), 1), ((4, 0), 1)], left_polygon = [((0, 1), 0), ((2, 0), 0), ((1, 2), 0), ((3, 0), 1),
   ((4, 3), 1), ((0, 4), 1), ((1, 0), 2), ((0, 2), 2), ((2, 1), 2), ((0, 3), 2), ((3, 4), 2),
   ((4, 0), 2)], start_node = [((1, 2), 1), ((2, 1), 2), ((1, 0), 1), ((0, 1), 0), ((2, 0), 2),
   ((0, 2), 0), ((0, 4), 0), ((4, 0), 4), ((0, 3), 0), ((3, 0), 3), ((4, 3), 4), ((3, 4), 3)],
   end_node = [((1, 2), 2), ((2, 1), 1), ((1, 0), 0), ((0, 1), 1), ((2, 0), 0), ((0, 2), 2),
   ((0, 4), 4), ((4, 0), 0), ((0, 3), 3), ((3, 0), 0), ((4, 3), 3), ((3, 4), 4)], node_coords =
   [(0, 0, 0), (1, 0, - 1), (2, 4, - 3), (3, 0, 4), (4, 3, 0)], edge_list = [(0, 1), (1, 0), (1,
   2), (2, 1), (2, 0), (0, 2), (0, 3), (3, 0), (3, 4), (4, 3), (4, 0), (0, 4)]\<rparr>,
   caller_coords = [], caller_edges = [(0, 1), (1, 2), (2, 0), (0, 3), (3, 4), (4, 0)]\<rparr>"
  by (simp add: WED_init_def bowtie_check)
    (simp add: wed_defs0 bowtie_choice[unfolded bowtie_coords_def, simplified]
       bowtie_extraction[unfolded bowtie_coords_def] bowtie_coords_def bowtie_edges_def
       cong: bind_err_arg Let_arg)

subsection \<open>What every construction keeps\<close>

lemma endpoint_tables_fold:
  "map_of (start_node (endpoint_tables es w)) e =
     (if e \<in> set es \<and> fst e \<noteq> snd e then Some (fst e) else map_of (start_node w) e) \<and>
   map_of (end_node (endpoint_tables es w)) e =
     (if e \<in> set es \<and> fst e \<noteq> snd e then Some (snd e) else map_of (end_node w) e) \<and>
   right_polygon (endpoint_tables es w) = right_polygon w \<and>
   left_polygon (endpoint_tables es w) = left_polygon w"
  unfolding endpoint_tables_def
  by (induction es arbitrary: w) (auto simp: map_of_upd)

lemma twin_faces_face_edge: "twin_faces w \<Longrightarrow> twin_faces (face_edge r ri w i)"
  by (auto simp: twin_faces_def face_edge_def Let_def map_of_upd twin_def)

lemma ends_face_edge:
  "start_node (face_edge r ri w i) = start_node w \<and> end_node (face_edge r ri w i) = end_node w"
  by (simp add: face_edge_def Let_def)

lemma face_edges_fold:
  "twin_faces w \<Longrightarrow> twin_faces (foldl (face_edge r ri) w is)"
  "start_node (foldl (face_edge r ri) w is) = start_node w"
  "end_node (foldl (face_edge r ri) w is) = end_node w"
  by (induction "is" arbitrary: w) (simp_all add: twin_faces_face_edge ends_face_edge)

lemma twin_faces_cong:
  "right_polygon w' = right_polygon w \<Longrightarrow> left_polygon w' = left_polygon w \<Longrightarrow>
   twin_faces w' = twin_faces w"
  by (simp add: twin_faces_def)

lemma face_region_keeps:
  assumes "face_region ri region w = Inr w'"
  shows "start_node w' = start_node w" "end_node w' = end_node w"
    "twin_faces w \<Longrightarrow> twin_faces w'"
proof -
  from assms obtain r k x where
    w': "w' = (foldl (face_edge r ri) w k)\<lparr> region_edge := x \<rparr>"
    by (auto simp: face_region_def Let_def split: if_splits)
  show "start_node w' = start_node w" "end_node w' = end_node w"
    by (simp_all add: w' face_edges_fold)
  have "twin_faces w' = twin_faces (foldl (face_edge r ri) w k)"
    by (rule twin_faces_cong) (simp_all add: w')
  then show "twin_faces w \<Longrightarrow> twin_faces w'" by (simp add: face_edges_fold)
qed

lemma face_regions_keeps:
  "face_regions ri rs w = Inr w' \<Longrightarrow>
   start_node w' = start_node w \<and> end_node w' = end_node w \<and> (twin_faces w \<longrightarrow> twin_faces w')"
proof (induction rs arbitrary: ri w)
  case Nil
  then show ?case by simp
next
  case (Cons r rs)
  then obtain w1 where a: "face_region ri r w = Inr w1" and b: "face_regions (ri + 1) rs w1 = Inr w'"
    by (auto simp: bind_err_Inr_iff)
  show ?case using Cons.IH[OF b] face_region_keeps[OF a] by simp
qed

lemma assign_exterior_keeps:
  "start_node (assign_exterior ext xs w) = start_node w \<and>
   end_node (assign_exterior ext xs w) = end_node w \<and>
   right_polygon (assign_exterior ext xs w) = right_polygon w"
  unfolding assign_exterior_def by (induction xs arbitrary: w) simp_all

lemma assign_exterior_twin_faces:
  "twin_faces w \<Longrightarrow> \<forall>e\<in>set xs. map_of (right_polygon w) (twin e) = None \<Longrightarrow>
   twin_faces (assign_exterior ext xs w)"
  unfolding assign_exterior_def
proof (induction xs arbitrary: w)
  case Nil
  then show ?case by simp
next
  case (Cons x xs)
  let ?w = "w\<lparr> left_polygon := AList.update x ext (left_polygon w) \<rparr>"
  have "twin_faces ?w"
    using Cons.prems unfolding twin_faces_def
    by (auto simp: map_of_upd twin_eq_iff)
  moreover have "\<forall>e\<in>set xs. map_of (right_polygon ?w) (twin e) = None"
    using Cons.prems(2) by simp
  ultimately show ?case using Cons.IH[of ?w] by simp
qed

lemma noleft_no_right:
  assumes "twin_faces w" "e \<in> set (noleft_of w)"
  shows "map_of (right_polygon w) (twin e) = None"
proof (rule ccontr)
  assume "map_of (right_polygon w) (twin e) \<noteq> None"
  then obtain f where "map_of (right_polygon w) (twin e) = Some f" by auto
  then have "map_of (left_polygon w) e = Some f" using assms(1) unfolding twin_faces_def
    by (metis twin_twin)
  then show False using assms(2) by (simp add: noleft_of_def)
qed

lemma union_inner_fold:
  "start_node (foldl (union_inner chain) w is) = start_node w \<and>
   end_node (foldl (union_inner chain) w is) = end_node w \<and>
   right_polygon (foldl (union_inner chain) w is) = right_polygon w \<and>
   left_polygon (foldl (union_inner chain) w is) = left_polygon w"
  by (induction "is" arbitrary: w) (simp_all add: union_inner_def)

lemma install_unions_keeps:
  "install_unions us w = Inr w' \<Longrightarrow>
   start_node w' = start_node w \<and> end_node w' = end_node w \<and>
   right_polygon w' = right_polygon w \<and> left_polygon w' = left_polygon w"
proof (induction us arbitrary: w)
  case Nil
  then show ?case by simp
next
  case (Cons u us)
  then obtain w1 where a: "install_union w u = Inr w1" and b: "install_unions us w1 = Inr w'"
    by (auto simp: bind_err_Inr_iff)
  have "start_node w1 = start_node w \<and> end_node w1 = end_node w \<and>
        right_polygon w1 = right_polygon w \<and> left_polygon w1 = left_polygon w"
    using a by (auto simp: install_union_def Let_def union_inner_fold split: if_splits)
  then show ?case using Cons.IH[OF b] by simp
qed

lemma twin_faces_both:
  assumes "twin_faces w"
  shows "twin_faces (w\<lparr> right_polygon := AList.update (twin x) r (AList.update x r (right_polygon w)),
                       left_polygon := AList.update (twin x) r (AList.update x r (left_polygon w)) \<rparr>)"
  unfolding twin_faces_def
proof (intro allI impI)
  fix e f
  let ?w = "w\<lparr> right_polygon := AList.update (twin x) r (AList.update x r (right_polygon w)),
               left_polygon := AList.update (twin x) r (AList.update x r (left_polygon w)) \<rparr>"
  assume a: "map_of (right_polygon ?w) e = Some f"
  show "map_of (left_polygon ?w) (twin e) = Some f"
  proof (cases "e = x \<or> e = twin x")
    case True
    then have "f = r" using a by (auto simp: map_of_upd split: if_splits)
    moreover have "twin e = twin x \<or> twin e = x" using True by auto
    ultimately show ?thesis by (auto simp: map_of_upd)
  next
    case False
    then have "map_of (right_polygon w) e = Some f" using a by (simp add: map_of_upd)
    then have "map_of (left_polygon w) (twin e) = Some f"
      using assms unfolding twin_faces_def by blast
    moreover have "twin e \<noteq> twin x" "twin e \<noteq> x" using False by (auto simp: twin_eq_iff)
    ultimately show ?thesis by (simp add: map_of_upd)
  qed
qed

lemma paint_filament_keeps:
  "start_node (paint_filament r fil w) = start_node w \<and>
   end_node (paint_filament r fil w) = end_node w \<and>
   (twin_faces w \<longrightarrow> twin_faces (paint_filament r fil w))"
proof (induction r fil w rule: paint_filament.induct)
  case (1 r a b rest w)
  let ?w = "w\<lparr> right_polygon := AList.update (b, a) r (AList.update (a, b) r (right_polygon w)),
               left_polygon := AList.update (b, a) r (AList.update (a, b) r (left_polygon w)) \<rparr>"
  have "twin_faces w \<Longrightarrow> twin_faces ?w"
    using twin_faces_both[of w "(a, b)" r] by (simp add: twin_def)
  then show ?case using 1 by simp
qed simp_all

lemma paint_regions_keeps:
  "paint_regions inside co rsets fil rs w = Inr w' \<Longrightarrow>
   start_node w' = start_node w \<and> end_node w' = end_node w \<and> (twin_faces w \<longrightarrow> twin_faces w')"
proof (induction rs arbitrary: w)
  case Nil
  then show ?case by simp
next
  case (Cons r rs)
  then obtain poly p where
    b: "paint_regions inside co rsets fil rs (if inside poly p then paint_filament r fil w else w) = Inr w'"
    by (auto simp: bind_err_Inr_iff)
  show ?case using Cons.IH[OF b] paint_filament_keeps[of r fil w] by (simp split: if_splits)
qed

lemma splice_keeps:
  "start_node (splice n f cw ccw w) = start_node w \<and> end_node (splice n f cw ccw w) = end_node w \<and>
   right_polygon (splice n f cw ccw w) = right_polygon w \<and>
   left_polygon (splice n f cw ccw w) = left_polygon w"
  by (simp add: splice_def Let_def)

lemma case_list_Inr:
  "(case xs of [] \<Rightarrow> Inl err | y # ys \<Rightarrow> g y ys) = Inr r \<longleftrightarrow> (\<exists>y ys. xs = y # ys \<and> g y ys = Inr r)"
  by (cases xs) auto

lemma insert_at_keeps:
  assumes "insert_at inside fuel co rsets fil irs w v = Inr w'"
  shows "start_node w' = start_node w \<and> end_node w' = end_node w \<and> (twin_faces w \<longrightarrow> twin_faces w')"
proof -
  from assms obtain cw ccw f where
    p: "paint_regions inside co rsets fil irs (splice v f cw ccw w) = Inr w'"
    unfolding insert_at_def
    by (auto simp: bind_err_Inr_iff case_list_Inr Let_def)
  have "twin_faces (splice v f cw ccw w) = twin_faces w"
    by (rule twin_faces_cong) (simp_all add: splice_keeps)
  then have "twin_faces w \<Longrightarrow> twin_faces (splice v f cw ccw w)" by simp
  then show ?thesis using paint_regions_keeps[OF p] splice_keeps[of v f cw ccw w] by simp
qed

lemma insert_all_keeps:
  "insert_all inside fuel co rsets fil irs vs w = Inr w' \<Longrightarrow>
   start_node w' = start_node w \<and> end_node w' = end_node w \<and> (twin_faces w \<longrightarrow> twin_faces w')"
proof (induction vs arbitrary: w)
  case Nil
  then show ?case by simp
next
  case (Cons v vs)
  then obtain w1 where a: "insert_at inside fuel co rsets fil irs w v = Inr w1"
    and b: "insert_all inside fuel co rsets fil irs vs w1 = Inr w'"
    by (auto simp: bind_err_Inr_iff)
  show ?case using Cons.IH[OF b] insert_at_keeps[OF a] by simp
qed

lemma insert_filament_keeps:
  assumes "insert_filament inside fuel co rsets w fil = Inr w'"
  shows "start_node w' = start_node w \<and> end_node w' = end_node w \<and> (twin_faces w \<longrightarrow> twin_faces w')"
proof -
  from assms obtain w1 irs vs where
    a: "insert_all inside fuel co rsets fil irs vs w1 = Inr w'" and
    s: "start_node w1 = start_node w" "end_node w1 = end_node w"
       "right_polygon w1 = right_polygon w" "left_polygon w1 = left_polygon w"
    unfolding insert_filament_def
    by (auto simp: bind_err_Inr_iff Let_def)
  have "twin_faces w1 = twin_faces w" by (rule twin_faces_cong) (simp_all add: s)
  then show ?thesis using insert_all_keeps[OF a] s by simp
qed

lemma insert_filaments_keeps:
  "insert_filaments inside fuel co rsets fils w = Inr w' \<Longrightarrow>
   start_node w' = start_node w \<and> end_node w' = end_node w \<and> (twin_faces w \<longrightarrow> twin_faces w')"
proof (induction fils arbitrary: w)
  case Nil
  then show ?case by simp
next
  case (Cons fil fils)
  then obtain w1 where a: "insert_filament inside fuel co rsets w fil = Inr w1"
    and b: "insert_filaments inside fuel co rsets fils w1 = Inr w'"
    by (auto simp: bind_err_Inr_iff)
  show ?case using Cons.IH[OF b] insert_filament_keeps[OF a] by simp
qed

text \<open>
  The pieces put together: the endpoint tables of a returned structure are those of the
  edges the extraction collected, its coordinates are the caller's, and its face tables
  agree across twins.
\<close>

lemma extract_wed_keeps:
  assumes "extract_wed inside fuel es coords = Inr (w, coords_left, edges_left)"
  shows "\<exists>s. run_extraction fuel coords es = Inr s \<and> coords_left = nodes s \<and> edges_left = edges s \<and>
    start_node w = start_node (endpoint_tables (ext_edges s) empty_wed) \<and>
    end_node w = end_node (endpoint_tables (ext_edges s) empty_wed) \<and>
    node_coords w = coords \<and> twin_faces w"
proof -
  from assms obtain s w1 us w3 w4 where
    s: "run_extraction fuel coords es = Inr s" and
    w1: "face_regions 0 (minimal_cycles s) (endpoint_tables (ext_edges s) empty_wed) = Inr w1" and
    w3: "install_unions us (assign_exterior (int (length (minimal_cycles s))) (noleft_of w1) w1) = Inr w3" and
    w4: "insert_filaments inside fuel coords (map py_set (minimal_cycles s))
           (filaments_of (primitives s)) w3 = Inr w4" and
    w: "w = w4\<lparr> node_coords := coords \<rparr>" and l: "coords_left = nodes s" "edges_left = edges s"
    unfolding extract_wed_def
    by (auto simp: bind_err_Inr_iff Let_def results_of_def)
  let ?w0 = "endpoint_tables (ext_edges s) empty_wed"
  let ?w2 = "assign_exterior (int (length (minimal_cycles s))) (noleft_of w1) w1"
  have t0: "twin_faces ?w0"
    using endpoint_tables_fold[of "ext_edges s" empty_wed] by (simp add: twin_faces_def empty_wed_def)
  have k1: "start_node w1 = start_node ?w0" "end_node w1 = end_node ?w0" "twin_faces w1"
    using face_regions_keeps[OF w1] t0 by simp_all
  have t2: "twin_faces ?w2"
    using assign_exterior_twin_faces[OF k1(3)] noleft_no_right[OF k1(3)] by blast
  have k3: "start_node w3 = start_node ?w0" "end_node w3 = end_node ?w0" "twin_faces w3"
    using install_unions_keeps[OF w3] assign_exterior_keeps[of _ "noleft_of w1" w1] k1 t2
    by (simp_all add: twin_faces_def)
  have k4: "start_node w4 = start_node ?w0" "end_node w4 = end_node ?w0" "twin_faces w4"
    using insert_filaments_keeps[OF w4] k3 by simp_all
  show ?thesis using s l w k4 by (simp add: twin_faces_def)
qed

lemma run_extraction_ext_edges:
  assumes "run_extraction fuel ns es = Inr s" "e \<in> set (ext_edges s)"
  shows "twin e \<in> set (ext_edges s)"
proof -
  have "\<forall>e\<in>set (ext_edges (init_state ns es)). twin e \<in> set (ext_edges (init_state ns es))"
    by (simp add: init_state_def)
  then show ?thesis
    using main_loop_stable[OF stable_ext_edges _ assms(1)[unfolded run_extraction_def]] assms(2)
    by blast
qed

lemma run_extraction_nodes:
  assumes "run_extraction fuel ns es = Inr s"
  shows "set (nodes s) \<subseteq> set ns"
proof -
  have "set (nodes (init_state ns es)) \<subseteq> set ns" by (simp add: init_state_def)
  then show ?thesis
    using main_loop_stable[OF stable_nodes _ assms[unfolded run_extraction_def]] by blast
qed

lemma WED_init_keeps:
  assumes "WED_init inside fuel es coords = Inr c"
  shows "\<exists>s w. extract_wed inside fuel (check_edges es) coords = Inr (w, nodes s, edges s) \<and>
    run_extraction fuel coords (check_edges es) = Inr s \<and>
    c = \<lparr> built = w\<lparr> edge_list := check_edges es \<rparr>, caller_coords = nodes s,
          caller_edges = (if makes_double es then es else edges s) \<rparr>"
proof -
  from assms obtain w cl el where e: "extract_wed inside fuel (check_edges es) coords = Inr (w, cl, el)"
    and c: "c = \<lparr> built = w\<lparr> edge_list := check_edges es \<rparr>, caller_coords = cl,
          caller_edges = (if makes_double es then es else el) \<rparr>"
    unfolding WED_init_def by (auto simp: bind_err_Inr_iff Let_def)
  from extract_wed_keeps[OF e] obtain s where
    s: "run_extraction fuel coords (check_edges es) = Inr s" "cl = nodes s" "el = edges s"
    by auto
  show ?thesis using e c s by auto
qed

text \<open>
  C1, as the code has it. In every structure the constructor returns, the twin of a
  half-edge of the endpoint tables is in the endpoint tables too, and whenever a half-edge
  has a right face, its twin has that face as its left face.
\<close>

theorem twin_faces_constructed:
  assumes "WED_init inside fuel es coords = Inr c"
  shows "(map_of (start_node (built c)) e = Some n \<longrightarrow>
            n = fst e \<and> map_of (start_node (built c)) (twin e) = Some (snd e) \<and>
            map_of (end_node (built c)) e = Some (snd e)) \<and>
         (map_of (right_polygon (built c)) e = Some f \<longrightarrow>
            map_of (left_polygon (built c)) (twin e) = Some f)"
proof -
  from WED_init_keeps[OF assms] obtain s :: rg_state and w where
    e: "extract_wed inside fuel (check_edges es) coords = Inr (w, nodes s, edges s)" and
    c: "built c = w\<lparr> edge_list := check_edges es \<rparr>"
    by auto
  from extract_wed_keeps[OF e] obtain s' where
    r: "run_extraction fuel coords (check_edges es) = Inr s'" and
    k: "start_node w = start_node (endpoint_tables (ext_edges s') empty_wed)"
       "end_node w = end_node (endpoint_tables (ext_edges s') empty_wed)" "twin_faces w"
    by auto
  have st: "\<And>x. map_of (start_node w) x =
      (if x \<in> set (ext_edges s') \<and> fst x \<noteq> snd x then Some (fst x) else None)"
    and en: "\<And>x. map_of (end_node w) x =
      (if x \<in> set (ext_edges s') \<and> fst x \<noteq> snd x then Some (snd x) else None)"
    using endpoint_tables_fold[of "ext_edges s'" empty_wed] k by (simp_all add: empty_wed_def)
  have "map_of (start_node w) e = Some n \<Longrightarrow>
          n = fst e \<and> map_of (start_node w) (twin e) = Some (snd e) \<and>
          map_of (end_node w) e = Some (snd e)"
    using run_extraction_ext_edges[OF r, of e]
    by (auto simp: st en twin_def split: if_splits)
  moreover have "map_of (right_polygon w) e = Some f \<Longrightarrow> map_of (left_polygon w) (twin e) = Some f"
    using k(3) unfolding twin_faces_def by blast
  ultimately show ?thesis using c by simp
qed

theorem twin_faces_constructed_witness:
  "WED_init contains_point 20 s1_edges s1_coords
     = Inr (projr (WED_init contains_point 20 s1_edges s1_coords)) \<and>
   map_of (start_node (built (projr (WED_init contains_point 20 s1_edges s1_coords)))) (1, 0)
     = Some 1 \<and>
   map_of (start_node (built (projr (WED_init contains_point 20 s1_edges s1_coords)))) (twin (1, 0))
     = Some 0 \<and>
   map_of (end_node (built (projr (WED_init contains_point 20 s1_edges s1_coords)))) (1, 0)
     = Some 0 \<and>
   map_of (right_polygon (built (projr (WED_init contains_point 20 s1_edges s1_coords)))) (1, 0)
     = Some 0 \<and>
   map_of (left_polygon (built (projr (WED_init contains_point 20 s1_edges s1_coords)))) (twin (1, 0))
     = Some 0"
proof -
  have r: "WED_init contains_point 20 s1_edges s1_coords
     = Inr (projr (WED_init contains_point 20 s1_edges s1_coords))"
    by (simp add: s1_construction)
  show ?thesis
    using twin_faces_constructed [OF r, of "(1, 0)" 1 0] r
    by (simp add: s1_construction twin_def)
qed

text \<open>
  C2, as the code has it. The structure the constructor returns holds the coordinates
  it was given, every key with its value. The caller's own coordinates are handed to the
  extraction and may only lose entries. The caller's edge list is as it was whenever
  \<open>check_edges\<close> doubles the pairs, since the extraction then works on the new list.
\<close>

theorem caller_inputs_constructed:
  assumes "WED_init inside fuel es coords = Inr c"
  shows "node_coords (built c) = coords \<and> set (caller_coords c) \<subseteq> set coords \<and>
         (makes_double es \<longrightarrow> caller_edges c = es)"
proof -
  from WED_init_keeps[OF assms] obtain s :: rg_state and w where
    e: "extract_wed inside fuel (check_edges es) coords = Inr (w, nodes s, edges s)" and
    r: "run_extraction fuel coords (check_edges es) = Inr s" and
    c: "c = \<lparr> built = w\<lparr> edge_list := check_edges es \<rparr>, caller_coords = nodes s,
          caller_edges = (if makes_double es then es else edges s) \<rparr>"
    by auto
  have "node_coords w = coords" using extract_wed_keeps[OF e] by auto
  then show ?thesis using c run_extraction_nodes[OF r] by simp
qed

theorem caller_inputs_constructed_witness:
  "makes_double s1_edges \<and>
   WED_init contains_point 20 s1_edges s1_coords
     = Inr (projr (WED_init contains_point 20 s1_edges s1_coords)) \<and>
   node_coords (built (projr (WED_init contains_point 20 s1_edges s1_coords))) = s1_coords \<and>
   set (caller_coords (projr (WED_init contains_point 20 s1_edges s1_coords))) \<subseteq> set s1_coords \<and>
   caller_edges (projr (WED_init contains_point 20 s1_edges s1_coords)) = s1_edges"
proof -
  have r: "WED_init contains_point 20 s1_edges s1_coords
     = Inr (projr (WED_init contains_point 20 s1_edges s1_coords))"
    by (simp add: s1_construction)
  show ?thesis
    using caller_inputs_constructed [OF r] r s1_check by simp
qed

text \<open>
  C4, as the code has it. In every structure the constructor returns, the endpoint
  tables \<open>start_node\<close> and \<open>end_node\<close> have no entry for a pair with equal endpoints.
\<close>

theorem no_self_loop_endpoints:
  assumes "WED_init inside fuel es coords = Inr c"
  shows "map_of (start_node (built c)) (u, u) = None \<and> map_of (end_node (built c)) (u, u) = None"
proof -
  from WED_init_keeps[OF assms] obtain s :: rg_state and w where
    e: "extract_wed inside fuel (check_edges es) coords = Inr (w, nodes s, edges s)" and
    c: "built c = w\<lparr> edge_list := check_edges es \<rparr>"
    by auto
  from extract_wed_keeps[OF e] obtain s' :: rg_state where
    k: "start_node w = start_node (endpoint_tables (ext_edges s') empty_wed)"
       "end_node w = end_node (endpoint_tables (ext_edges s') empty_wed)"
    by auto
  show ?thesis
    using endpoint_tables_fold[of "ext_edges s'" empty_wed "(u, u)"] k c
    by (simp add: empty_wed_def)
qed

theorem no_self_loop_endpoints_witness:
  "(1, 1) \<in> set loop_edges \<and>
   WED_init contains_point 20 loop_edges s1_coords
     = Inr (projr (WED_init contains_point 20 loop_edges s1_coords)) \<and>
   (1, 1) \<in> set (edge_list (built (projr (WED_init contains_point 20 loop_edges s1_coords)))) \<and>
   map_of (start_node (built (projr (WED_init contains_point 20 loop_edges s1_coords)))) (1, 1)
     = None \<and>
   map_of (end_node (built (projr (WED_init contains_point 20 loop_edges s1_coords)))) (1, 1)
     = None"
proof -
  have r: "WED_init contains_point 20 loop_edges s1_coords
     = Inr (projr (WED_init contains_point 20 loop_edges s1_coords))"
    by (simp add: loop_construction)
  have l: "(1, 1) \<in> set loop_edges" by (simp add: loop_edges_def)
  show ?thesis
    using no_self_loop_endpoints [OF r, of 1] r l by (simp add: loop_construction)
qed

subsection \<open>The walk around a region\<close>





subsection \<open>What the constructed structures show\<close>

text \<open>
  C1 as stated fails on the triangle S1: the half-edge \<open>(0, 1)\<close> and its twin are both in
  the structure, the twin \<open>(1, 0)\<close> has the exterior face 1 on its left, and \<open>(0, 1)\<close>
  has no right face at all.
\<close>

theorem twin_face_counterexample:
  "\<not> isl (WED_init contains_point 20 s1_edges s1_coords) \<and>
   map_of (start_node (built (projr (WED_init contains_point 20 s1_edges s1_coords)))) (0, 1)
     = Some 0 \<and>
   map_of (start_node (built (projr (WED_init contains_point 20 s1_edges s1_coords)))) (1, 0)
     = Some 1 \<and>
   map_of (left_polygon (built (projr (WED_init contains_point 20 s1_edges s1_coords)))) (1, 0)
     = Some 1 \<and>
   map_of (right_polygon (built (projr (WED_init contains_point 20 s1_edges s1_coords)))) (0, 1)
     = None"
  by (simp add: s1_construction)

text \<open>
  C2 as stated fails on the triangle S1: when the constructor returns, the caller's
  coordinates hold no node any more. Called with the six half-edges of the triangle, which
  \<open>check_edges\<close> passes through, it leaves the caller's edge list empty as well.
\<close>

theorem caller_inputs_counterexample:
  "\<not> isl (WED_init contains_point 20 s1_edges s1_coords) \<and>
   s1_coords = [(0, (0, 0)), (1, (1, 0)), (2, (0, 1))] \<and>
   caller_coords (projr (WED_init contains_point 20 s1_edges s1_coords)) = [] \<and>
   \<not> isl (WED_init contains_point 20 [(0, 1), (1, 0), (1, 2), (2, 1), (2, 0), (0, 2)] s1_coords) \<and>
   caller_edges (projr (WED_init contains_point 20
       [(0, 1), (1, 0), (1, 2), (2, 1), (2, 0), (0, 2)] s1_coords)) = []"
  by (simp add: s1_construction s1_doubled_construction) (simp add: s1_coords_def)

text \<open>
  C4 as stated fails on the triangle with a self-loop at node 1: the constructor returns
  and the edge list of the structure holds the pair \<open>(1, 1)\<close>, twice.
\<close>

theorem self_loop_counterexample:
  "(1, 1) \<in> set loop_edges \<and>
   \<not> isl (WED_init contains_point 20 loop_edges s1_coords) \<and>
   (1, 1) \<in> set (edge_list (built (projr (WED_init contains_point 20 loop_edges s1_coords)))) \<and>
   count_list (edge_list (built (projr (WED_init contains_point 20 loop_edges s1_coords)))) (1, 1)
     = 2"
  by (simp add: loop_construction) (simp add: loop_edges_def)


text \<open>
  C6. Two triangles share node 0. The chain of the exterior boundary that starts with
  the half-edge \<open>(4, 0)\<close> has two candidates at its tail 0. Seen from node 0, the
  counter-clockwise angle from node 4 to node 2 is the larger one (a full turn less
  \<open>arctan (3/4)\<close>, against a quarter turn to node 3), but the code compares the values of
  \<open>arccos\<close>, which do not tell the two senses of rotation apart, and appends \<open>(0, 3)\<close>
  (candidate 1). The chain then closes around one triangle only, and the structure gets
  \<open>end_c[(4, 0)] = (0, 3)\<close>.
\<close>

theorem stitcher_choice_bowtie:
  "choose_next (map snd bowtie_coords) (4, 0) [(0, 2), (0, 3)] = Inr 1 \<and>
   spec_ccw_angle (3, 0) (0, 4) < spec_ccw_angle (3, 0) (4, - 3) \<and>
   find_unions 20 (map snd bowtie_coords) [(1, 0), (0, 2), (2, 1), (0, 3), (3, 4), (4, 0)] []
     = Inr [[(4, 0), (0, 3), (3, 4)], [(2, 1), (1, 0), (0, 2)]] \<and>
   \<not> isl (WED_init contains_point 20 bowtie_edges bowtie_coords) \<and>
   map_of (end_c (built (projr (WED_init contains_point 20 bowtie_edges bowtie_coords)))) (4, 0)
     = Some (0, 3)"
proof -
  have "arctan (3 / 4) < pi / 2" by (rule arctan_ubound)
  then have "pi / 2 < 2 * pi - arctan (3 / 4)" using pi_gt_zero by linarith
  then have "spec_ccw_angle (3, 0) (0, 4) < spec_ccw_angle (3, 0) (4, - 3)"
    by (simp only: spec_ccw_up spec_ccw_down)
  then show ?thesis
    by (simp add: bowtie_choice bowtie_unions bowtie_construction)
qed

text \<open>
  C7, as the code has it. On S5 the filament \<open>[1, 3]\<close> meets the triangle at node 1 and
  its far node \<open>(2, 2)\<close> is tested against the triangle. For every point-in-polygon test
  that puts \<open>(2, 2)\<close> outside the triangle, the constructor returns and neither
  \<open>right_polygon\<close> nor \<open>left_polygon\<close> has an entry for \<open>(1, 3)\<close> or for \<open>(3, 1)\<close>.
\<close>

theorem filament_faces_s5:
  assumes "\<not> inside [(0, 0), (1, 0), (0, 1)] (2, 2)"
  shows "\<not> isl (WED_init inside 20 s5_edges s5_coords) \<and>
    map_of (right_polygon (built (projr (WED_init inside 20 s5_edges s5_coords)))) (1, 3) = None \<and>
    map_of (left_polygon (built (projr (WED_init inside 20 s5_edges s5_coords)))) (1, 3) = None \<and>
    map_of (right_polygon (built (projr (WED_init inside 20 s5_edges s5_coords)))) (3, 1) = None \<and>
    map_of (left_polygon (built (projr (WED_init inside 20 s5_edges s5_coords)))) (3, 1) = None"
  using assms by (simp add: s5_construction[of inside])

theorem filament_faces_s5_witness:
  "\<not> contains_point [(0, 0), (1, 0), (0, 1)] (2, 2) \<and>
   \<not> isl (WED_init contains_point 20 s5_edges s5_coords) \<and>
   map_of (right_polygon (built (projr (WED_init contains_point 20 s5_edges s5_coords)))) (1, 3)
     = None"
  using filament_faces_s5 [of contains_point] s5_outside by simp

text \<open>
  C7 as stated fails: on S5 the exterior face is 1 (it is the left face of \<open>(1, 0)\<close>), and
  it is neither the right nor the left face of \<open>(1, 3)\<close>.
\<close>

theorem filament_faces_s5_counterexample:
  "\<not> isl (WED_init contains_point 20 s5_edges s5_coords) \<and>
   map_of (left_polygon (built (projr (WED_init contains_point 20 s5_edges s5_coords)))) (1, 0)
     = Some 1 \<and>
   map_of (right_polygon (built (projr (WED_init contains_point 20 s5_edges s5_coords)))) (1, 3)
     \<noteq> Some 1 \<and>
   map_of (left_polygon (built (projr (WED_init contains_point 20 s5_edges s5_coords)))) (1, 3)
     \<noteq> Some 1"
  using s5_outside by (simp add: s5_construction[of contains_point])

end
